theory Spec2Isabelle
  imports Complex_Main "HOL-Library.Multiset"
begin

section \<open>Python strings and lists\<close>

text \<open>
  A Python \<open>str\<close> is a sequence of Unicode code points, and \<open>len\<close> counts code points.
  A code point is a natural number here, so a text is a list of naturals; \<open>py_str\<close> turns
  an ASCII literal into such a text.
\<close>

type_synonym pystr = "nat list"

definition py_str :: "string \<Rightarrow> pystr" where
  "py_str s = map of_char s"

text \<open>
  The characters \<open>str.split()\<close> and \<open>str.strip()\<close> treat as whitespace when called with no
  argument (CPython's \<open>Py_UNICODE_ISSPACE\<close>): U+0009..U+000D, U+001C..U+0020, U+0085,
  U+00A0, U+1680, U+2000..U+200A, U+2028, U+2029, U+202F, U+205F and U+3000.
\<close>

definition isspace :: "nat \<Rightarrow> bool" where
  "isspace c =
     ((9 \<le> c \<and> c \<le> 13) \<or> (28 \<le> c \<and> c \<le> 32) \<or> c = 133 \<or> c = 160 \<or> c = 5760 \<or>
      (8192 \<le> c \<and> c \<le> 8202) \<or> c = 8232 \<or> c = 8233 \<or> c = 8239 \<or> c = 8287 \<or>
      c = 12288)"

text \<open>
  \<open>text.split()\<close>: the maximal runs of non-whitespace characters, in order. The first
  argument is the word being read.
\<close>

fun split_from :: "pystr \<Rightarrow> pystr \<Rightarrow> pystr list" where
  "split_from w [] = (if w = [] then [] else [w])"
| "split_from w (c # cs) =
     (if isspace c then (if w = [] then split_from [] cs else w # split_from [] cs)
      else split_from (w @ [c]) cs)"

definition py_split :: "pystr \<Rightarrow> pystr list" where
  "py_split text = split_from [] text"

text \<open>\<open>text.strip()\<close>: leading and trailing whitespace removed.\<close>

definition py_strip :: "pystr \<Rightarrow> pystr" where
  "py_strip text = rev (dropWhile isspace (rev (dropWhile isspace text)))"

text \<open>\<open>sep.join(parts)\<close>.\<close>

fun py_join :: "pystr \<Rightarrow> pystr list \<Rightarrow> pystr" where
  "py_join sep [] = []"
| "py_join sep [w] = w"
| "py_join sep (w # ws) = w @ sep @ py_join sep ws"

text \<open>
  The slice \<open>xs[i:]\<close>: a negative \<open>i\<close> counts from the end, and both ends are clipped to the
  list. In particular \<open>xs[-0:]\<close> is \<open>xs[0:]\<close>, the whole list.
\<close>

definition slice_from :: "'a list \<Rightarrow> int \<Rightarrow> 'a list" where
  "slice_from xs i =
     (let n = int (length xs);
          start = (if i < 0 then max 0 (n + i) else min i n)
      in drop (nat start) xs)"

section \<open>The chunker: \<open>ChunkingService.chunk_text\<close>\<close>

text \<open>The approximate token cost of a word, \<open>len(word) // 4\<close>.\<close>

definition word_length :: "pystr \<Rightarrow> int" where
  "word_length word = int (length word) div 4"

text \<open>
  The \<open>for word in words\<close> loop with its three variables \<open>chunks\<close>, \<open>current_chunk\<close> and
  \<open>current_length\<close>, and the flush of the last chunk after the loop.
\<close>

fun chunk_loop ::
  "int \<Rightarrow> int \<Rightarrow> pystr list \<Rightarrow> pystr list \<Rightarrow> pystr list \<Rightarrow> int \<Rightarrow> pystr list" where
  "chunk_loop chunk_size overlap [] chunks current_chunk current_length =
     (if current_chunk \<noteq> [] then chunks @ [py_join (py_str '' '') current_chunk] else chunks)"
| "chunk_loop chunk_size overlap (word # words) chunks current_chunk current_length =
     (if current_length + word_length word > chunk_size \<and> current_chunk \<noteq> [] then
        (let overlap_words =
               (if int (length current_chunk) > overlap
                then slice_from current_chunk (- overlap) else current_chunk);
             new_chunk = overlap_words @ [word]
         in chunk_loop chunk_size overlap words
              (chunks @ [py_join (py_str '' '') current_chunk])
              new_chunk (sum_list (map word_length new_chunk)))
      else
        chunk_loop chunk_size overlap words chunks (current_chunk @ [word])
          (current_length + word_length word))"

text \<open>
  \<open>chunk_text(text, chunk_size, overlap)\<close> with both sizes given; a caller that passes
  \<open>None\<close> gets \<open>settings.CHUNK_SIZE\<close> and \<open>settings.CHUNK_OVERLAP\<close>, which
  \<open>create_document\<close> below passes explicitly.
\<close>

definition chunk_text :: "pystr \<Rightarrow> int \<Rightarrow> int \<Rightarrow> pystr list" where
  "chunk_text text chunk_size overlap = chunk_loop chunk_size overlap (py_split text) [] [] 0"

section \<open>Configuration, data and the external collaborators\<close>

text \<open>The fields of \<open>app.config.Settings\<close> that the modelled code reads.\<close>

record settings =
  OPENROUTER_API_KEY :: pystr
  EMBEDDING_MODEL :: pystr
  LLM_MODEL :: pystr
  STORAGE_PATH :: pystr
  CHUNK_SIZE :: int
  CHUNK_OVERLAP :: int
  MAX_TOP_K :: int

text \<open>
  The exceptions of the code, one constructor for each \<open>raise\<close> statement of the services
  and for each failing dictionary or list read of the query route. \<open>External\<close> is an
  exception raised inside a library (httpx, chromadb, PyPDF2, python-docx, SQLAlchemy, the
  file system, \<open>bytes.decode\<close>), with its message.
\<close>

datatype exn =
    ApiKeyNotSet
  | EmbeddingApiError pystr
  | UnsupportedFileType pystr
  | PdfNotInstalled
  | DocxNotInstalled
  | NoTextExtracted
  | NoChunksCreated
  | VectorDBNotInitialized
  | LlmAuthFailed pystr
  | LlmApiError int pystr
  | KeyError pystr
  | NoneNotSubscriptable
  | IndexError
  | External pystr

text \<open>\<open>f"{i}"\<close> for a non-negative integer: its decimal digits.\<close>

function str_of_nat :: "nat \<Rightarrow> pystr" where
  "str_of_nat n = (if n < 10 then [48 + n] else str_of_nat (n div 10) @ [48 + n mod 10])"
  by pat_completeness auto
termination
  by (relation "measure id") auto

declare str_of_nat.simps [simp del]

definition str_of_int :: "int \<Rightarrow> pystr" where
  "str_of_int i = (if i < 0 then py_str ''-'' @ str_of_nat (nat (- i)) else str_of_nat (nat i))"

text \<open>\<open>str(e)\<close> for each exception; 39 is the apostrophe.\<close>

fun str_of_exn :: "exn \<Rightarrow> pystr" where
  "str_of_exn ApiKeyNotSet =
     py_str ''OPENROUTER_API_KEY is not set. Please set it in your environment variables.''"
| "str_of_exn (EmbeddingApiError body) = py_str ''Embedding API error: '' @ body"
| "str_of_exn (UnsupportedFileType ftype) = py_str ''Unsupported file type: '' @ ftype"
| "str_of_exn PdfNotInstalled = py_str ''PyPDF2 not installed. Install with: pip install PyPDF2''"
| "str_of_exn DocxNotInstalled =
     py_str ''python-docx not installed. Install with: pip install python-docx''"
| "str_of_exn NoTextExtracted = py_str ''No text extracted from document''"
| "str_of_exn NoChunksCreated = py_str ''No chunks created from document''"
| "str_of_exn VectorDBNotInitialized = py_str ''Vector database not initialized''"
| "str_of_exn (LlmAuthFailed error_msg) =
     py_str ''OpenRouter API authentication failed: '' @ error_msg @
     py_str ''. Please check your OPENROUTER_API_KEY.''"
| "str_of_exn (LlmApiError status body) =
     py_str ''LLM API error (status '' @ str_of_int status @ py_str ''): '' @ body"
| "str_of_exn (KeyError k) = [39] @ k @ [39]"
| "str_of_exn NoneNotSubscriptable =
     [39] @ py_str ''NoneType'' @ [39] @ py_str '' object is not subscriptable''"
| "str_of_exn IndexError = py_str ''list index out of range''"
| "str_of_exn (External message) = message"

text \<open>
  A \<open>VectorDBService\<close> object: its \<open>collection\<close> is \<open>None\<close> when chromadb could not be
  imported, and the collection otherwise (whose content is part of the world below). The
  module-level \<open>vector_db_service\<close> is such an object, or \<open>None\<close> when constructing it
  raised.
\<close>

datatype vector_db = VectorDBService (has_collection: bool)

text \<open>The metadata dictionary written with each chunk, and one \<open>collection.add\<close> call.\<close>

record metadata =
  meta_document_id :: pystr
  chunk_index :: int
  meta_filename :: pystr

record 'f batch =
  batch_ids :: "pystr list"
  batch_embeddings :: "'f list list"
  batch_documents :: "pystr list"
  batch_metadatas :: "metadata list"

text \<open>An entry of a result dictionary: the key is absent, holds \<open>None\<close>, or holds a value.\<close>

datatype 'a dict_entry = Missing | PyNone | Val 'a

record 'f query_result =
  result_ids :: "pystr list list dict_entry"
  result_documents :: "pystr list list dict_entry"
  result_metadatas :: "metadata list list dict_entry"
  result_distances :: "'f list list dict_entry"

record get_result =
  get_ids :: "pystr list dict_entry"
  get_documents :: "pystr list dict_entry"

text \<open>
  An HTTP response as the services read it: \<open>status_code\<close>, \<open>text\<close>, and what \<open>json()\<close>
  and the reads into it give (\<open>Inl\<close> the message of the exception they raise).
\<close>

record 'a http_response =
  status_code :: int
  body_text :: pystr
  json :: "pystr + 'a"

record chat_json =
  error_message :: "pystr option"
  choice_content :: "pystr + pystr"

datatype embed_input = Single pystr | Batch "pystr list"

text \<open>The \<open>Document\<close> row of \<open>app.models\<close>.\<close>

record document =
  document_id :: pystr
  original_filename :: pystr
  file_path :: pystr
  file_type :: pystr
  extracted_text :: pystr
  chunk_count :: int

text \<open>The calls that leave the process, in the order they are made.\<close>

datatype call =
    EmbeddingsPost embed_input
  | ChatCompletionsPost pystr pystr
  | CollectionAdd "pystr list"
  | CollectionQuery int
  | CollectionGet "pystr list"

text \<open>
  What persists: the files written, the rows of the relational store, the content of the
  vector collection (the batches added), and the trace of external calls.
\<close>

record 'f world =
  files :: "(pystr \<times> nat list) list"
  rows :: "document list"
  index :: "'f batch list"
  trace :: "call list"

text \<open>
  The collaborators the code calls and does not define: the libraries, the remote
  services, and the interpreter's own operations on floats, Unicode case and sets. A
  library call gives \<open>Inl message\<close> (or \<open>Some message\<close>) when it raises.
\<close>

record 'f env =
  settings :: settings
  vector_db_service :: "vector_db option"
  PDF_AVAILABLE :: bool
  DOCX_AVAILABLE :: bool
  uuid4 :: pystr
  lower :: "pystr \<Rightarrow> pystr"
  open_wb :: "pystr \<Rightarrow> nat list \<Rightarrow> pystr option"
  pdf_pages :: "nat list \<Rightarrow> pystr + pystr list"
  docx_paragraphs :: "nat list \<Rightarrow> pystr + pystr list"
  decode_utf8 :: "nat list \<Rightarrow> pystr + pystr"
  post_embeddings :: "embed_input \<Rightarrow> pystr + 'f list list http_response"
  post_chat_completions :: "pystr \<Rightarrow> pystr \<Rightarrow> pystr + chat_json http_response"
  collection_add :: "'f batch list \<Rightarrow> 'f batch \<Rightarrow> pystr option"
  collection_query :: "'f batch list \<Rightarrow> 'f list \<Rightarrow> int \<Rightarrow> pystr + 'f query_result"
  collection_get :: "'f batch list \<Rightarrow> pystr list \<Rightarrow> pystr + get_result"
  db_commit :: "document list \<Rightarrow> document \<Rightarrow> pystr option"
  set_iteration :: "pystr list \<Rightarrow> pystr list"
  float_zero :: 'f
  int_minus_float :: "int \<Rightarrow> 'f \<Rightarrow> 'f"
  float_round :: "'f \<Rightarrow> int \<Rightarrow> 'f"

section \<open>The embedding service\<close>

text \<open>\<open>EmbeddingService.get_embedding\<close>: the embedding is \<open>result["data"][0]["embedding"]\<close>.\<close>

definition get_embedding :: "'f env \<Rightarrow> 'f world \<Rightarrow> pystr \<Rightarrow> (exn + 'f list) \<times> 'f world" where
  "get_embedding env w question_text =
     (if OPENROUTER_API_KEY (settings env) = [] then (Inl ApiKeyNotSet, w)
      else
        let w1 = w\<lparr>trace := trace w @ [EmbeddingsPost (Single question_text)]\<rparr> in
        case post_embeddings env (Single question_text) of
          Inl message \<Rightarrow> (Inl (External message), w1)
        | Inr response \<Rightarrow>
            if status_code response \<noteq> 200
            then (Inl (EmbeddingApiError (body_text response)), w1)
            else (case json response of
                    Inl message \<Rightarrow> (Inl (External message), w1)
                  | Inr [] \<Rightarrow> (Inl IndexError, w1)
                  | Inr (embedding # _) \<Rightarrow> (Inr embedding, w1)))"

text \<open>\<open>EmbeddingService.get_embeddings_batch\<close>: one embedding for each item of \<open>result["data"]\<close>.\<close>

definition get_embeddings_batch ::
  "'f env \<Rightarrow> 'f world \<Rightarrow> pystr list \<Rightarrow> (exn + 'f list list) \<times> 'f world" where
  "get_embeddings_batch env w texts =
     (if OPENROUTER_API_KEY (settings env) = [] then (Inl ApiKeyNotSet, w)
      else
        let w1 = w\<lparr>trace := trace w @ [EmbeddingsPost (Batch texts)]\<rparr> in
        case post_embeddings env (Batch texts) of
          Inl message \<Rightarrow> (Inl (External message), w1)
        | Inr response \<Rightarrow>
            if status_code response \<noteq> 200
            then (Inl (EmbeddingApiError (body_text response)), w1)
            else (case json response of
                    Inl message \<Rightarrow> (Inl (External message), w1)
                  | Inr embeddings \<Rightarrow> (Inr embeddings, w1)))"

section \<open>The vector database service\<close>

text \<open>
  The methods of \<open>VectorDBService\<close>, with \<open>self\<close> as their first argument. Each raises
  \<open>Exception("Vector database not initialized")\<close> when \<open>self.collection\<close> is \<open>None\<close>.
\<close>

definition add_documents ::
  "vector_db \<Rightarrow> 'f env \<Rightarrow> 'f world \<Rightarrow> pystr \<Rightarrow> pystr list \<Rightarrow> 'f list list \<Rightarrow> pystr list \<Rightarrow>
   metadata list \<Rightarrow> (exn + unit) \<times> 'f world" where
  "add_documents self env w doc_id chunk_ids embeddings chunks metadatas =
     (if \<not> has_collection self then (Inl VectorDBNotInitialized, w)
      else
        let added = \<lparr>batch_ids = chunk_ids, batch_embeddings = embeddings,
                     batch_documents = chunks, batch_metadatas = metadatas\<rparr>;
            w1 = w\<lparr>trace := trace w @ [CollectionAdd chunk_ids]\<rparr>
        in case collection_add env (index w) added of
             Some message \<Rightarrow> (Inl (External message), w1)
           | None \<Rightarrow> (Inr (), w1\<lparr>index := index w @ [added]\<rparr>))"

definition vdb_query ::
  "vector_db \<Rightarrow> 'f env \<Rightarrow> 'f world \<Rightarrow> 'f list \<Rightarrow> int \<Rightarrow> (exn + 'f query_result) \<times> 'f world" where
  "vdb_query self env w query_embedding n_results =
     (if \<not> has_collection self then (Inl VectorDBNotInitialized, w)
      else
        let w1 = w\<lparr>trace := trace w @ [CollectionQuery n_results]\<rparr> in
        case collection_query env (index w) query_embedding n_results of
          Inl message \<Rightarrow> (Inl (External message), w1)
        | Inr results \<Rightarrow> (Inr results, w1))"

definition get_chunks ::
  "vector_db \<Rightarrow> 'f env \<Rightarrow> 'f world \<Rightarrow> pystr list \<Rightarrow> (exn + get_result) \<times> 'f world" where
  "get_chunks self env w chunk_ids =
     (if \<not> has_collection self then (Inl VectorDBNotInitialized, w)
      else
        let w1 = w\<lparr>trace := trace w @ [CollectionGet chunk_ids]\<rparr> in
        case collection_get env (index w) chunk_ids of
          Inl message \<Rightarrow> (Inl (External message), w1)
        | Inr results \<Rightarrow> (Inr results, w1))"

section \<open>Text extraction\<close>

text \<open>\<open>sub in s\<close> for strings.\<close>

fun py_in :: "pystr \<Rightarrow> pystr \<Rightarrow> bool" where
  "py_in sub [] = (sub = [])"
| "py_in sub (c # cs) = (take (length sub) (c # cs) = sub \<or> py_in sub cs)"

text \<open>
  \<open>_extract_from_pdf\<close> and \<open>_extract_from_docx\<close>: the texts of the pages (paragraphs), each
  followed by a newline, stripped.
\<close>

definition extract_from_pdf :: "'f env \<Rightarrow> nat list \<Rightarrow> exn + pystr" where
  "extract_from_pdf env file_content =
     (if \<not> PDF_AVAILABLE env then Inl PdfNotInstalled
      else case pdf_pages env file_content of
             Inl message \<Rightarrow> Inl (External message)
           | Inr pages \<Rightarrow> Inr (py_strip (concat (map (\<lambda>page. page @ [10]) pages))))"

definition extract_from_docx :: "'f env \<Rightarrow> nat list \<Rightarrow> exn + pystr" where
  "extract_from_docx env file_content =
     (if \<not> DOCX_AVAILABLE env then Inl DocxNotInstalled
      else case docx_paragraphs env file_content of
             Inl message \<Rightarrow> Inl (External message)
           | Inr paragraphs \<Rightarrow>
               Inr (py_strip (concat (map (\<lambda>paragraph. paragraph @ [10]) paragraphs))))"

definition extract_text :: "'f env \<Rightarrow> nat list \<Rightarrow> pystr \<Rightarrow> exn + pystr" where
  "extract_text env file_content ftype =
     (let file_type_lower = lower env ftype in
      if py_in (py_str ''pdf'') file_type_lower then extract_from_pdf env file_content
      else if py_in (py_str ''wordprocessingml'') file_type_lower \<or>
              py_in (py_str ''docx'') file_type_lower
      then extract_from_docx env file_content
      else if py_in (py_str ''text/plain'') file_type_lower \<or> file_type_lower = py_str ''txt''
      then (case decode_utf8 env file_content of
              Inl message \<Rightarrow> Inl (External message)
            | Inr decoded \<Rightarrow> Inr decoded)
      else Inl (UnsupportedFileType ftype))"

section \<open>Ingestion: \<open>DocumentService.create_document\<close>\<close>

text \<open>\<open>os.path.join\<close> of two components on POSIX.\<close>

definition path_join :: "pystr \<Rightarrow> pystr \<Rightarrow> pystr" where
  "path_join a b =
     (if b \<noteq> [] \<and> hd b = 47 then b
      else if a = [] \<or> last a = 47 then a @ b
      else a @ [47] @ b)"

text \<open>
  The steps in the order of the source: the file is written first; the text is extracted,
  checked, chunked and embedded; the chunks are added to the vector database when
  \<open>vector_db_service\<close> is not \<open>None\<close>; the row is added and committed last.
\<close>

definition create_document ::
  "'f env \<Rightarrow> 'f world \<Rightarrow> pystr \<Rightarrow> nat list \<Rightarrow> pystr \<Rightarrow> (exn + document) \<times> 'f world" where
  "create_document env db filename file_content ftype =
     (let doc_id = uuid4 env;
          file_ext =
            (if py_in (py_str ''pdf'') (lower env ftype) then py_str ''pdf''
             else if py_in (py_str ''wordprocessingml'') (lower env ftype) \<or>
                     py_in (py_str ''docx'') (lower env ftype)
             then py_str ''docx''
             else py_str ''txt'');
          path = path_join (STORAGE_PATH (settings env)) (doc_id @ py_str ''.'' @ file_ext)
      in case open_wb env path file_content of
           Some message \<Rightarrow> (Inl (External message), db)
         | None \<Rightarrow>
      let db1 = db\<lparr>files := files db @ [(path, file_content)]\<rparr> in
      case extract_text env file_content ftype of
        Inl e \<Rightarrow> (Inl e, db1)
      | Inr extracted \<Rightarrow>
      if py_strip extracted = [] then (Inl NoTextExtracted, db1)
      else
      let chunks = chunk_text extracted (CHUNK_SIZE (settings env)) (CHUNK_OVERLAP (settings env))
      in
      if chunks = [] then (Inl NoChunksCreated, db1)
      else
      case get_embeddings_batch env db1 chunks of
        (Inl e, db2) \<Rightarrow> (Inl e, db2)
      | (Inr embeddings, db2) \<Rightarrow>
      let chunk_ids =
            map (\<lambda>i. doc_id @ py_str ''_chunk_'' @ str_of_nat i) [0..<length chunks];
          metadatas =
            map (\<lambda>i. \<lparr>meta_document_id = doc_id, chunk_index = int i, meta_filename = filename\<rparr>)
              [0..<length chunks]
      in
      case (case vector_db_service env of
              Some self \<Rightarrow> add_documents self env db2 doc_id chunk_ids embeddings chunks metadatas
            | None \<Rightarrow> (Inr (), db2)) of
        (Inl e, db3) \<Rightarrow> (Inl e, db3)
      | (Inr _, db3) \<Rightarrow>
      let doc = \<lparr>document_id = doc_id, original_filename = filename, file_path = path,
                 file_type = file_ext, extracted_text = extracted,
                 chunk_count = int (length chunks)\<rparr>
      in case db_commit env (rows db3) doc of
           Some message \<Rightarrow> (Inl (External message), db3)
         | None \<Rightarrow> (Inr doc, db3\<lparr>rows := rows db3 @ [doc]\<rparr>))"

section \<open>Answer generation: \<open>RAGService.generate_answer\<close>\<close>

text \<open>The prompt of the completion request; 10 is the newline and 39 the apostrophe.\<close>

definition build_prompt :: "pystr \<Rightarrow> pystr \<Rightarrow> pystr" where
  "build_prompt context question_text =
     py_str ''You are a helpful assistant that answers questions based on the provided context documents.''
     @ [10, 10] @ py_str ''Context Documents:'' @ [10] @ context
     @ [10, 10] @ py_str ''Question: '' @ question_text
     @ [10, 10] @ py_str ''Instructions:''
     @ [10] @ py_str ''- Answer the question based ONLY on the provided context''
     @ [10] @ py_str ''- If the context doesn'' @ [39] @ py_str ''t contain enough information, say so''
     @ [10] @ py_str ''- Cite which chunks you used in your answer''
     @ [10] @ py_str ''- Be concise and accurate''
     @ [10, 10] @ py_str ''Answer:''"

text \<open>The result is the pair of the answer and the model name.\<close>

definition generate_answer ::
  "'f env \<Rightarrow> 'f world \<Rightarrow> pystr \<Rightarrow> pystr list \<Rightarrow> (exn + pystr \<times> pystr) \<times> 'f world" where
  "generate_answer env w question_text context_chunks =
     (if OPENROUTER_API_KEY (settings env) = [] then (Inl ApiKeyNotSet, w)
      else
        let context =
              py_join [10, 10]
                (map (\<lambda>(i, chunk). py_str ''[Chunk '' @ str_of_nat (i + 1) @ py_str '']: '' @ chunk)
                   (enumerate 0 context_chunks));
            prompt = build_prompt context question_text;
            w1 = w\<lparr>trace := trace w @ [ChatCompletionsPost (LLM_MODEL (settings env)) prompt]\<rparr>
        in case post_chat_completions env (LLM_MODEL (settings env)) prompt of
             Inl message \<Rightarrow> (Inl (External message), w1)
           | Inr response \<Rightarrow>
               if status_code response = 401 then
                 (if body_text response = []
                  then (Inl (LlmAuthFailed (py_str ''Authentication failed'')), w1)
                  else case json response of
                         Inl message \<Rightarrow> (Inl (External message), w1)
                       | Inr error_data \<Rightarrow>
                           (Inl (LlmAuthFailed
                              (case error_message error_data of
                                 None \<Rightarrow> py_str ''Authentication failed''
                               | Some m \<Rightarrow> m)), w1))
               else if status_code response \<noteq> 200
               then (Inl (LlmApiError (status_code response) (body_text response)), w1)
               else (case json response of
                       Inl message \<Rightarrow> (Inl (External message), w1)
                     | Inr result \<Rightarrow>
                         (case choice_content result of
                            Inl message \<Rightarrow> (Inl (External message), w1)
                          | Inr answer_text \<Rightarrow> (Inr (answer_text, LLM_MODEL (settings env)), w1))))"

section \<open>The query route: \<open>query_documents\<close>\<close>

record query_request =
  question :: pystr
  top_k :: int

record 'f chunk_info =
  chunk_id :: pystr
  chunk_info_text :: pystr
  similarity_score :: 'f

record 'f query_response =
  answer :: pystr
  chunks_used :: "'f chunk_info list"
  document_ids :: "pystr list"
  model :: pystr

datatype http_exception = HTTPException int pystr

text \<open>\<open>results[key][0]\<close>.\<close>

definition first_of :: "pystr \<Rightarrow> 'a list dict_entry \<Rightarrow> exn + 'a" where
  "first_of key entry =
     (case entry of
        Missing \<Rightarrow> Inl (KeyError key)
      | PyNone \<Rightarrow> Inl NoneNotSubscriptable
      | Val [] \<Rightarrow> Inl IndexError
      | Val (x # _) \<Rightarrow> Inr x)"

text \<open>
  The body of the \<open>try\<close> block. \<open>not results.get("ids") or not results["ids"][0]\<close> holds when
  the key is absent, \<open>None\<close> or an empty list, or when its first list is empty.
\<close>

definition query_try ::
  "vector_db \<Rightarrow> 'f env \<Rightarrow> 'f world \<Rightarrow> query_request \<Rightarrow> (exn + 'f query_response) \<times> 'f world" where
  "query_try self env w query_data =
     (let k = min (max (top_k query_data) 1) (MAX_TOP_K (settings env)) in
      case get_embedding env w (question query_data) of
        (Inl e, w1) \<Rightarrow> (Inl e, w1)
      | (Inr question_embedding, w1) \<Rightarrow>
      case vdb_query self env w1 question_embedding k of
        (Inl e, w2) \<Rightarrow> (Inl e, w2)
      | (Inr results, w2) \<Rightarrow>
      let no_relevant =
            \<lparr>answer = py_str ''No relevant documents found in the database.'',
             chunks_used = [], document_ids = [], model = LLM_MODEL (settings env)\<rparr>
      in
      case result_ids results of
        Missing \<Rightarrow> (Inr no_relevant, w2)
      | PyNone \<Rightarrow> (Inr no_relevant, w2)
      | Val [] \<Rightarrow> (Inr no_relevant, w2)
      | Val (chunk_ids # _) \<Rightarrow>
      if chunk_ids = [] then (Inr no_relevant, w2)
      else
      case first_of (py_str ''documents'') (result_documents results) of
        Inl e \<Rightarrow> (Inl e, w2)
      | Inr chunks_text \<Rightarrow>
      case first_of (py_str ''metadatas'') (result_metadatas results) of
        Inl e \<Rightarrow> (Inl e, w2)
      | Inr metadatas \<Rightarrow>
      case (case result_distances results of
              Missing \<Rightarrow> Inr (replicate (length chunk_ids) (float_zero env))
            | present \<Rightarrow> first_of (py_str ''distances'') present) of
        Inl e \<Rightarrow> (Inl e, w2)
      | Inr distances \<Rightarrow>
      let similarity_scores = map (\<lambda>dist. int_minus_float env 1 dist) distances;
          used =
            map (\<lambda>(cid, ctext, score).
                   \<lparr>chunk_id = cid, chunk_info_text = ctext,
                    similarity_score = float_round env score 4\<rparr>)
              (zip chunk_ids (zip chunks_text similarity_scores));
          doc_ids = set_iteration env (map meta_document_id metadatas)
      in
      case generate_answer env w2 (question query_data) chunks_text of
        (Inl e, w3) \<Rightarrow> (Inl e, w3)
      | (Inr (answer_text, model_name), w3) \<Rightarrow>
          (Inr \<lparr>answer = answer_text, chunks_used = used, document_ids = doc_ids,
                model = model_name\<rparr>, w3))"

text \<open>
  The route: HTTP 500 at once when \<open>vector_db_service\<close> is \<open>None\<close>; every exception of the
  \<open>try\<close> block becomes HTTP 500 with the detail \<open>f"Query failed: {str(e)}"\<close>.
\<close>

definition query_documents ::
  "'f env \<Rightarrow> 'f world \<Rightarrow> query_request \<Rightarrow> (http_exception + 'f query_response) \<times> 'f world" where
  "query_documents env w query_data =
     (case vector_db_service env of
        None \<Rightarrow> (Inl (HTTPException 500 (py_str ''Vector database not available'')), w)
      | Some self \<Rightarrow>
          (case query_try self env w query_data of
             (Inl e, w') \<Rightarrow> (Inl (HTTPException 500 (py_str ''Query failed: '' @ str_of_exn e)), w')
           | (Inr response, w') \<Rightarrow> (Inr response, w')))"

section \<open>The document detail route: \<open>get_document\<close>\<close>

text \<open>The response without its \<open>created_at\<close> timestamp, which the database sets.\<close>

record document_detail =
  detail_document_id :: pystr
  detail_original_filename :: pystr
  detail_file_type :: pystr
  detail_extracted_text :: pystr
  detail_chunk_count :: int
  detail_chunks :: "(pystr \<times> pystr) list"

text \<open>\<open>results.get(key, [])\<close> as an argument of \<open>zip\<close>, which raises on \<open>None\<close>.\<close>

definition get_or_empty :: "'a list dict_entry \<Rightarrow> exn + 'a list" where
  "get_or_empty entry =
     (case entry of Missing \<Rightarrow> Inr []
      | PyNone \<Rightarrow> Inl (External ([39] @ py_str ''NoneType'' @ [39] @ py_str '' object is not iterable''))
      | Val xs \<Rightarrow> Inr xs)"

text \<open>
  \<open>DocumentService.get_document\<close> is the first row with the identifier. The chunk
  identifiers are rebuilt from \<open>doc.chunk_count\<close>; any exception while reading the chunks
  leaves the chunk list empty.
\<close>

definition get_document ::
  "'f env \<Rightarrow> 'f world \<Rightarrow> pystr \<Rightarrow> (http_exception + document_detail) \<times> 'f world" where
  "get_document env w doc_id =
     (case find (\<lambda>d. document_id d = doc_id) (rows w) of
        None \<Rightarrow> (Inl (HTTPException 404 (py_str ''Document not found'')), w)
      | Some doc \<Rightarrow>
          let (chunks_data, w') =
                (case vector_db_service env of
                   None \<Rightarrow> ([], w)
                 | Some self \<Rightarrow>
                     let chunk_ids =
                           map (\<lambda>i. doc_id @ py_str ''_chunk_'' @ str_of_nat i)
                             [0..<nat (chunk_count doc)]
                     in case get_chunks self env w chunk_ids of
                          (Inl e, w1) \<Rightarrow> ([], w1)
                        | (Inr results, w1) \<Rightarrow>
                            (case get_or_empty (get_ids results) of
                               Inl e \<Rightarrow> ([], w1)
                             | Inr ids \<Rightarrow>
                                 (case get_or_empty (get_documents results) of
                                    Inl e \<Rightarrow> ([], w1)
                                  | Inr texts \<Rightarrow> (zip ids texts, w1))))
          in (Inr \<lparr>detail_document_id = document_id doc,
                   detail_original_filename = original_filename doc,
                   detail_file_type = file_type doc,
                   detail_extracted_text = extracted_text doc,
                   detail_chunk_count = chunk_count doc,
                   detail_chunks = chunks_data\<rparr>, w'))"

section \<open>Notions used to state and prove the properties\<close>

text \<open>A word: non-empty and free of whitespace, as every element of \<open>text.split()\<close> is.\<close>

definition is_word :: "pystr \<Rightarrow> bool" where
  "is_word w = (w \<noteq> [] \<and> list_all (\<lambda>c. \<not> isspace c) w)"

text \<open>
  The loop of \<open>chunk_text\<close> on word lists, before the chunks are joined: \<open>chunk_loop\<close> is
  proved below to be its image under \<open>" ".join\<close>.
\<close>

fun chunk_words ::
  "int \<Rightarrow> int \<Rightarrow> pystr list \<Rightarrow> pystr list list \<Rightarrow> pystr list \<Rightarrow> int \<Rightarrow> pystr list list" where
  "chunk_words chunk_size overlap [] chunks current_chunk current_length =
     (if current_chunk \<noteq> [] then chunks @ [current_chunk] else chunks)"
| "chunk_words chunk_size overlap (word # words) chunks current_chunk current_length =
     (if current_length + word_length word > chunk_size \<and> current_chunk \<noteq> [] then
        (let overlap_words =
               (if int (length current_chunk) > overlap
                then slice_from current_chunk (- overlap) else current_chunk);
             new_chunk = overlap_words @ [word]
         in chunk_words chunk_size overlap words (chunks @ [current_chunk])
              new_chunk (sum_list (map word_length new_chunk)))
      else
        chunk_words chunk_size overlap words chunks (current_chunk @ [word])
          (current_length + word_length word))"

text \<open>
  Chunk \<open>b\<close> starts with the last \<open>min(overlap, len(a))\<close> words of chunk \<open>a\<close> (no word when
  that number is not positive).
\<close>

definition seeded :: "int \<Rightarrow> 'a list \<Rightarrow> 'a list \<Rightarrow> bool" where
  "seeded overlap a b =
     (let m = nat (min overlap (int (length a)))
      in m \<le> length b \<and> take m b = drop (length a - m) a)"

fun overlap_chain :: "int \<Rightarrow> 'a list list \<Rightarrow> bool" where
  "overlap_chain overlap (a # b # rest) = (seeded overlap a b \<and> overlap_chain overlap (b # rest))"
| "overlap_chain overlap [a] = True"
| "overlap_chain overlap [] = True"

text \<open>
  De-overlapping a chunk sequence: the first chunk whole, and every later chunk without
  its first \<open>min(overlap, len(previous chunk))\<close> words, concatenated.
\<close>

fun drop_seeds :: "int \<Rightarrow> 'a list list \<Rightarrow> 'a list list" where
  "drop_seeds overlap (a # b # rest) =
     drop (nat (min overlap (int (length a)))) b # drop_seeds overlap (b # rest)"
| "drop_seeds overlap [a] = []"
| "drop_seeds overlap [] = []"

definition deoverlap :: "int \<Rightarrow> 'a list list \<Rightarrow> 'a list" where
  "deoverlap overlap cs = (case cs of [] \<Rightarrow> [] | a # rest \<Rightarrow> a @ concat (drop_seeds overlap cs))"

text \<open>The query found no chunk: the condition of the early return of \<open>query_documents\<close>.\<close>

definition no_chunks :: "'f query_result \<Rightarrow> bool" where
  "no_chunks results =
     (case result_ids results of Val (chunk_ids # _) \<Rightarrow> chunk_ids = [] | _ \<Rightarrow> True)"

text \<open>The chunk identifiers held by the vector collection.\<close>

definition stored_ids :: "'f world \<Rightarrow> pystr list" where
  "stored_ids w = concat (map batch_ids (index w))"

subsection \<open>A concrete environment\<close>

text \<open>
  The default settings of \<open>app.config\<close> and collaborators that always succeed, on ASCII
  lower-case input: the embedding of every text is \<open>[0]\<close>, the collection answers a query
  with no chunk while it is empty and with one chunk at distance 0.25 otherwise, and floats
  are real numbers rounded to decimals.
\<close>

definition default_settings :: settings where
  "default_settings =
     \<lparr>OPENROUTER_API_KEY = py_str ''key'',
      EMBEDDING_MODEL = py_str ''openai/text-embedding-3-small'',
      LLM_MODEL = py_str ''openai/gpt-4o-mini'',
      STORAGE_PATH = py_str ''./documents'',
      CHUNK_SIZE = 500, CHUNK_OVERLAP = 50, MAX_TOP_K = 10\<rparr>"

definition one_hit :: "real query_result" where
  "one_hit =
     \<lparr>result_ids = Val [[py_str ''d1_chunk_0'']],
      result_documents = Val [[py_str ''aaaa bbbb'']],
      result_metadatas =
        Val [[\<lparr>meta_document_id = py_str ''d1'', chunk_index = 0, meta_filename = py_str ''a.txt''\<rparr>]],
      result_distances = Val [[0.25]]\<rparr>"

definition no_hit :: "real query_result" where
  "no_hit =
     \<lparr>result_ids = Val [[]], result_documents = Val [[]], result_metadatas = Val [[]],
      result_distances = Val [[]]\<rparr>"

definition test_env :: "real env" where
  "test_env =
     \<lparr>settings = default_settings,
      vector_db_service = Some (VectorDBService True),
      PDF_AVAILABLE = True,
      DOCX_AVAILABLE = True,
      uuid4 = py_str ''d1'',
      lower = (\<lambda>s. s),
      open_wb = (\<lambda>path content. None),
      pdf_pages = (\<lambda>content. Inr []),
      docx_paragraphs = (\<lambda>content. Inr []),
      decode_utf8 = (\<lambda>content. Inr content),
      post_embeddings =
        (\<lambda>input. Inr \<lparr>status_code = 200, body_text = [],
                       json = Inr (case input of Single t \<Rightarrow> [[0]] | Batch ts \<Rightarrow> map (\<lambda>t. [0]) ts)\<rparr>),
      post_chat_completions =
        (\<lambda>model_name prompt.
           Inr \<lparr>status_code = 200, body_text = [],
                json = Inr \<lparr>error_message = None, choice_content = Inr (py_str ''42'')\<rparr>\<rparr>),
      collection_add = (\<lambda>content added. None),
      collection_query = (\<lambda>content embedding n. Inr (if content = [] then no_hit else one_hit)),
      collection_get =
        (\<lambda>content ids. Inr \<lparr>get_ids = Val [], get_documents = Val []\<rparr>),
      db_commit = (\<lambda>existing doc. None),
      set_iteration = remdups,
      float_zero = 0,
      int_minus_float = (\<lambda>i x. of_int i - x),
      float_round = (\<lambda>x n. of_int \<lfloor>x * 10 ^ nat n + 1 / 2\<rfloor> / 10 ^ nat n)\<rparr>"

definition empty_world :: "real world" where
  "empty_world = \<lparr>files = [], rows = [], index = [], trace = []\<rparr>"

text \<open>The calls to the completion service in a trace.\<close>

fun is_completion_call :: "call \<Rightarrow> bool" where
  "is_completion_call (ChatCompletionsPost model_name prompt) = True"
| "is_completion_call c = False"

definition completion_calls :: "'f world \<Rightarrow> nat" where
  "completion_calls w = length (filter is_completion_call (trace w))"

text \<open>A world whose collection holds the one chunk of one document.\<close>

definition one_doc_world :: "real world" where
  "one_doc_world =
     \<lparr>files = [], rows = [],
      index = [\<lparr>batch_ids = [py_str ''d1_chunk_0''], batch_embeddings = [[0]],
                batch_documents = [py_str ''aaaa bbbb''],
                batch_metadatas =
                  [\<lparr>meta_document_id = py_str ''d1'', chunk_index = 0,
                    meta_filename = py_str ''a.txt''\<rparr>]\<rparr>],
      trace = []\<rparr>"

text \<open>
  Variants of the environment: \<open>vector_db_service\<close> is \<open>None\<close>; the service has no
  collection; \<open>collection.add\<close> raises. And the row that ingesting the text
  \<open>"aaaa bbbb"\<close> as \<open>a.txt\<close> creates.
\<close>

definition no_service_env :: "real env" where
  "no_service_env = test_env\<lparr>vector_db_service := None\<rparr>"

definition no_collection_env :: "real env" where
  "no_collection_env = test_env\<lparr>vector_db_service := Some (VectorDBService False)\<rparr>"

definition failing_add_env :: "real env" where
  "failing_add_env = test_env\<lparr>collection_add := (\<lambda>content added. Some (py_str ''add failed''))\<rparr>"

definition the_doc :: document where
  "the_doc =
     \<lparr>document_id = py_str ''d1'', original_filename = py_str ''a.txt'',
      file_path = py_str ''./documents/d1.txt'', file_type = py_str ''txt'',
      extracted_text = py_str ''aaaa bbbb'', chunk_count = 1\<rparr>"

section \<open>Splitting, joining and the chunk loop\<close>

lemma py_str_space: "py_str '' '' = [32]"
  by (simp add: py_str_def)

lemma isspace_32: "isspace 32"
  by (simp add: isspace_def)

lemma split_from_words:
  "list_all (\<lambda>c. \<not> isspace c) w \<Longrightarrow> list_all is_word (split_from w cs)"
  by (induction cs arbitrary: w) (auto simp: is_word_def)

lemma py_split_words: "list_all is_word (py_split text)"
  unfolding py_split_def by (rule split_from_words) simp

lemma split_from_run:
  "list_all (\<lambda>c. \<not> isspace c) x \<Longrightarrow> split_from w (x @ rest) = split_from (w @ x) rest"
  by (induction x arbitrary: w) auto

lemma split_from_join:
  "list_all is_word ws \<Longrightarrow> ws \<noteq> [] \<Longrightarrow> split_from [] (py_join [32] ws) = ws"
proof (induction "[32::nat]" ws rule: py_join.induct)
  case (2 w)
  then have "split_from [] (w @ []) = split_from ([] @ w) []"
    by (intro split_from_run) (simp add: is_word_def)
  with 2 show ?case by (simp add: is_word_def)
next
  case (3 w v ws)
  then have w: "w \<noteq> []" "list_all (\<lambda>c. \<not> isspace c) w"
    by (simp_all add: is_word_def)
  have "split_from [] (w @ 32 # py_join [32] (v # ws)) = split_from ([] @ w) (32 # py_join [32] (v # ws))"
    using w(2) by (rule split_from_run)
  also have "\<dots> = w # split_from [] (py_join [32] (v # ws))"
    using w(1) by (simp add: isspace_32)
  also have "\<dots> = w # v # ws"
    using 3 by simp
  finally show ?case by simp
qed simp

lemma py_split_join: "list_all is_word ws \<Longrightarrow> py_split (py_join (py_str '' '') ws) = ws"
  by (cases "ws = []") (simp_all add: py_split_def py_str_space split_from_join)

lemma split_from_nonempty:
  "w \<noteq> [] \<or> (\<exists>c\<in>set cs. \<not> isspace c) \<longleftrightarrow> split_from w cs \<noteq> []"
  by (induction cs arbitrary: w) auto

lemma py_split_nonempty: "py_split text \<noteq> [] \<longleftrightarrow> (\<exists>c\<in>set text. \<not> isspace c)"
  using split_from_nonempty[of "[]" "text"] by (simp add: py_split_def)

lemma dropWhile_nonempty: "dropWhile P xs \<noteq> [] \<longleftrightarrow> (\<exists>x\<in>set xs. \<not> P x)"
  by (induction xs) auto

lemma py_strip_nonempty: "py_strip text \<noteq> [] \<longleftrightarrow> (\<exists>c\<in>set text. \<not> isspace c)"
proof -
  have "py_strip text \<noteq> [] \<longleftrightarrow> (\<exists>c\<in>set (dropWhile isspace text). \<not> isspace c)"
    by (simp add: py_strip_def dropWhile_nonempty)
  also have "\<dots> \<longleftrightarrow> (\<exists>c\<in>set text. \<not> isspace c)"
    by (metis dropWhile_eq_Nil_conv dropWhile_nonempty set_dropWhileD hd_dropWhile hd_in_set)
  finally show ?thesis .
qed

lemma chunk_loop_nonempty:
  "current_chunk \<noteq> [] \<or> words \<noteq> [] \<Longrightarrow>
   chunk_loop chunk_size overlap words chunks current_chunk current_length \<noteq> []"
  by (induction words arbitrary: chunks current_chunk current_length) (auto simp: Let_def)




lemma chunk_loop_words:
  "chunk_loop cs ov ws (map (py_join (py_str '' '')) chs) cur len =
   map (py_join (py_str '' '')) (chunk_words cs ov ws chs cur len)"
proof (induction ws arbitrary: chs cur len)
  case Nil
  show ?case by simp
next
  case (Cons w ws)
  show ?case
    using Cons.IH[of "chs @ [cur]"] Cons.IH[of chs]
    by (simp add: Let_def)
qed

lemma set_slice_from: "set (slice_from xs i) \<subseteq> set xs"
  by (simp add: slice_from_def Let_def set_drop_subset)

lemma list_all_slice_from: "list_all P xs \<Longrightarrow> list_all P (slice_from xs i)"
  using set_slice_from[of xs i] by (auto simp: list_all_iff)

lemma chunk_words_are_words:
  "list_all is_word ws \<Longrightarrow> list_all is_word cur \<Longrightarrow> list_all (list_all is_word) chs \<Longrightarrow>
   list_all (list_all is_word) (chunk_words cs ov ws chs cur len)"
proof (induction ws arbitrary: chs cur len)
  case Nil
  then show ?case by simp
next
  case (Cons w ws)
  then show ?case
    by (auto simp: Let_def list_all_slice_from)
qed

lemma split_join_all:
  "list_all (list_all is_word) R \<Longrightarrow> map (\<lambda>c. py_split (py_join (py_str '' '') c)) R = R"
  by (induction R) (simp_all add: py_split_join)

lemma split_chunk_text:
  "map py_split (chunk_text txt cs ov) = chunk_words cs ov (py_split txt) [] [] 0"
proof -
  let ?R = "chunk_words cs ov (py_split txt) [] [] 0"
  have "list_all (list_all is_word) ?R"
    by (rule chunk_words_are_words) (simp_all add: py_split_words)
  then have "map (\<lambda>c. py_split (py_join (py_str '' '') c)) ?R = ?R"
    by (rule split_join_all)
  moreover have "chunk_text txt cs ov = map (py_join (py_str '' '')) ?R"
    using chunk_loop_words[of cs ov "py_split txt" "[]" "[]" 0] by (simp add: chunk_text_def)
  ultimately show ?thesis by (simp add: comp_def)
qed




lemma seeded_append: "seeded ov a b \<Longrightarrow> seeded ov a (b @ x)"
  by (auto simp: seeded_def Let_def)

lemma seeded_new_chunk:
  "seeded ov cur ((if int (length cur) > ov then slice_from cur (- ov) else cur) @ [w])"
  by (auto simp: seeded_def slice_from_def Let_def min_def max_def nat_diff_distrib)

lemma overlap_chain_append_last:
  "overlap_chain ov (chs @ [cur]) \<Longrightarrow> overlap_chain ov (chs @ [cur @ x])"
proof (induction chs)
  case Nil
  show ?case by simp
next
  case (Cons a chs)
  then show ?case
    by (cases chs) (auto simp: seeded_append)
qed

lemma overlap_chain_snoc:
  "overlap_chain ov (chs @ [cur]) \<Longrightarrow> seeded ov cur new \<Longrightarrow> overlap_chain ov (chs @ [cur, new])"
proof (induction chs)
  case Nil
  then show ?case by simp
next
  case (Cons a chs)
  then show ?case
    by (cases chs) auto
qed

lemma overlap_chain_butlast:
  "overlap_chain ov (chs @ [cur]) \<Longrightarrow> overlap_chain ov chs"
proof (induction chs)
  case Nil
  show ?case by simp
next
  case (Cons a chs)
  then show ?case
    by (cases chs) auto
qed

lemma chunk_words_chain:
  "overlap_chain ov (chs @ [cur]) \<Longrightarrow> overlap_chain ov (chunk_words cs ov ws chs cur len)"
proof (induction ws arbitrary: chs cur len)
  case Nil
  then show ?case by (auto dest: overlap_chain_butlast)
next
  case (Cons w ws)
  let ?new = "(if int (length cur) > ov then slice_from cur (- ov) else cur) @ [w]"
  show ?case
  proof (cases "len + word_length w > cs \<and> cur \<noteq> []")
    case True
    have "overlap_chain ov ((chs @ [cur]) @ [?new])"
      using overlap_chain_snoc[OF Cons.prems seeded_new_chunk] by simp
    from Cons.IH[OF this] True show ?thesis
      by (simp add: Let_def)
  next
    case False
    have "overlap_chain ov (chs @ [cur @ [w]])"
      using Cons.prems by (rule overlap_chain_append_last)
    from Cons.IH[OF this] False show ?thesis
      by auto
  qed
qed

lemma overlap_chain_nth:
  "overlap_chain ov R \<Longrightarrow> Suc i < length R \<Longrightarrow> seeded ov (R ! i) (R ! Suc i)"
proof (induction ov R arbitrary: i rule: overlap_chain.induct)
  case (1 ov a b rest)
  then show ?case by (cases i) auto
qed simp_all

lemma chunk_text_overlap:
  assumes "Suc i < length (chunk_text txt cs ov)"
  shows "seeded ov (py_split (chunk_text txt cs ov ! i)) (py_split (chunk_text txt cs ov ! Suc i))"
proof -
  let ?R = "chunk_words cs ov (py_split txt) [] [] 0"
  have R: "map py_split (chunk_text txt cs ov) = ?R"
    by (rule split_chunk_text)
  then have len: "length ?R = length (chunk_text txt cs ov)"
    by (metis length_map)
  have "overlap_chain ov ?R"
    by (rule chunk_words_chain) simp
  then have "seeded ov (?R ! i) (?R ! Suc i)"
    using assms len by (intro overlap_chain_nth) simp_all
  moreover have "?R ! i = py_split (chunk_text txt cs ov ! i)"
    "?R ! Suc i = py_split (chunk_text txt cs ov ! Suc i)"
    using assms by (simp_all add: R[symmetric])
  ultimately show ?thesis by simp
qed

lemma chunk_words_keeps:
  "w \<in> set ws \<union> set cur \<union> \<Union> (set ` set chs) \<Longrightarrow>
   w \<in> \<Union> (set ` set (chunk_words cs ov ws chs cur len))"
proof (induction ws arbitrary: chs cur len)
  case Nil
  then show ?case by auto
next
  case (Cons v ws)
  show ?case
  proof (cases "len + word_length v > cs \<and> cur \<noteq> []")
    case True
    let ?new = "(if int (length cur) > ov then slice_from cur (- ov) else cur) @ [v]"
    have "w \<in> set ws \<union> set ?new \<union> \<Union> (set ` set (chs @ [cur]))"
      using Cons.prems by auto
    from Cons.IH[OF this] True show ?thesis
      by (simp add: Let_def)
  next
    case False
    have "w \<in> set ws \<union> set (cur @ [v]) \<union> \<Union> (set ` set chs)"
      using Cons.prems by auto
    from Cons.IH[OF this] False show ?thesis
      by auto
  qed
qed

lemma chunk_text_keeps:
  assumes "w \<in> set (py_split txt)"
  shows "\<exists>c\<in>set (chunk_text txt cs ov). w \<in> set (py_split c)"
proof -
  have "w \<in> \<Union> (set ` set (chunk_words cs ov (py_split txt) [] [] 0))"
    using assms by (intro chunk_words_keeps) simp
  then have "w \<in> \<Union> (set ` set (map py_split (chunk_text txt cs ov)))"
    by (simp only: split_chunk_text)
  then show ?thesis by auto
qed

lemma chunk_text_single:
  assumes "py_split txt = [word]"
  shows "chunk_text txt cs ov = [word]"
  using assms by (simp add: chunk_text_def)




lemma drop_seeds_snoc:
  "drop_seeds ov (chs @ [a, b]) =
   drop_seeds ov (chs @ [a]) @ [drop (nat (min ov (int (length a)))) b]"
proof (induction chs)
  case Nil
  show ?case by simp
next
  case (Cons c chs)
  then show ?case by (cases chs) auto
qed

lemma deoverlap_snoc:
  "deoverlap ov (chs @ [a, b]) = deoverlap ov (chs @ [a]) @ drop (nat (min ov (int (length a)))) b"
proof (cases chs)
  case Nil
  then show ?thesis by (simp add: deoverlap_def)
next
  case (Cons c rest)
  have "drop_seeds ov ((c # rest) @ [a, b]) =
        drop_seeds ov ((c # rest) @ [a]) @ [drop (nat (min ov (int (length a)))) b]"
    by (rule drop_seeds_snoc)
  then show ?thesis
    using Cons by (simp add: deoverlap_def)
qed

lemma deoverlap_append_last:
  assumes "overlap_chain ov (chs @ [cur])"
  shows "deoverlap ov (chs @ [cur @ x]) = deoverlap ov (chs @ [cur]) @ x"
proof (cases chs rule: rev_cases)
  case Nil
  then show ?thesis by (simp add: deoverlap_def)
next
  case (snoc pre a)
  have "seeded ov a cur"
    using assms overlap_chain_nth[of ov "chs @ [cur]" "length pre"] snoc
    by (simp add: nth_append)
  then have "nat (min ov (int (length a))) \<le> length cur"
    by (simp add: seeded_def Let_def)
  then show ?thesis
    using snoc by (simp add: deoverlap_snoc)
qed

lemma deoverlap_drop_empty: "deoverlap ov (chs @ [[]]) = deoverlap ov chs"
proof (cases chs rule: rev_cases)
  case Nil
  then show ?thesis by (simp add: deoverlap_def)
next
  case (snoc pre a)
  then show ?thesis by (simp add: deoverlap_snoc)
qed

lemma drop_new_chunk:
  "1 \<le> ov \<Longrightarrow>
   drop (nat (min ov (int (length cur))))
     ((if int (length cur) > ov then slice_from cur (- ov) else cur) @ [w]) = [w]"
  by (auto simp: slice_from_def Let_def min_def max_def nat_diff_distrib)

lemma chunk_words_deoverlap:
  "1 \<le> ov \<Longrightarrow> overlap_chain ov (chs @ [cur]) \<Longrightarrow>
   deoverlap ov (chunk_words cs ov ws chs cur len) = deoverlap ov (chs @ [cur]) @ ws"
proof (induction ws arbitrary: chs cur len)
  case Nil
  then show ?case by (simp add: deoverlap_drop_empty)
next
  case (Cons w ws)
  let ?new = "(if int (length cur) > ov then slice_from cur (- ov) else cur) @ [w]"
  show ?case
  proof (cases "len + word_length w > cs \<and> cur \<noteq> []")
    case True
    have chain: "overlap_chain ov ((chs @ [cur]) @ [?new])"
      using overlap_chain_snoc[OF Cons.prems(2) seeded_new_chunk] by simp
    have "deoverlap ov (chs @ [cur, ?new]) = deoverlap ov (chs @ [cur]) @ [w]"
      using drop_new_chunk[OF Cons.prems(1), of cur w] by (simp only: deoverlap_snoc)
    with Cons.IH[OF Cons.prems(1) chain] True show ?thesis
      by (simp add: Let_def)
  next
    case False
    have chain: "overlap_chain ov (chs @ [cur @ [w]])"
      using Cons.prems(2) by (rule overlap_chain_append_last)
    from Cons.IH[OF Cons.prems(1) chain] False deoverlap_append_last[OF Cons.prems(2), of "[w]"]
    show ?thesis by auto
  qed
qed

lemma chunk_text_deoverlap:
  "1 \<le> ov \<Longrightarrow> deoverlap ov (map py_split (chunk_text txt cs ov)) = py_split txt"
  using chunk_words_deoverlap[of ov "[]" "[]" cs "py_split txt" 0]
  by (simp add: split_chunk_text deoverlap_def)

section \<open>The claims on the chunker\<close>

lemma chunk_text_eval_overlap:
  "chunk_text (py_str ''aaaa bbbb cccc'') 1 1 =
     [py_str ''aaaa'', py_str ''aaaa bbbb'', py_str ''bbbb cccc'']"
  by (simp add: chunk_text_def py_split_def py_str_def isspace_def word_length_def slice_from_def)

lemma py_split_eval_two: "py_split (py_str ''aaaa bbbb'') = [py_str ''aaaa'', py_str ''bbbb'']"
  by (simp add: py_split_def py_str_def isspace_def)

lemma py_split_eval_two': "py_split (py_str ''bbbb cccc'') = [py_str ''bbbb'', py_str ''cccc'']"
  by (simp add: py_split_def py_str_def isspace_def)

text \<open>
  Claim C1. For every text, target size and overlap, and every chunk after the first, the
  leading words of chunk \<open>i + 1\<close> are the trailing \<open>min(overlap, len(words of chunk i))\<close>
  words of chunk \<open>i\<close>. The words of a chunk are its \<open>split()\<close>; a number of words that
  is not positive means no word.
\<close>

theorem chunk_text_overlap_rule:
  "Suc i < length (chunk_text txt chunk_size overlap) \<Longrightarrow>
   (let a = py_split (chunk_text txt chunk_size overlap ! i);
        b = py_split (chunk_text txt chunk_size overlap ! Suc i);
        m = nat (min overlap (int (length a)))
    in m \<le> length b \<and> take m b = drop (length a - m) a)"
  using chunk_text_overlap[of i "txt" "chunk_size" "overlap"] by (simp add: seeded_def Let_def)

text \<open>
  An instance of C1: three words of cost 1, target size 1, overlap 1; the third chunk
  starts with the last word of the second.
\<close>

theorem chunk_text_overlap_rule_witness:
  "Suc 1 < length (chunk_text (py_str ''aaaa bbbb cccc'') 1 1) \<and>
   py_split (chunk_text (py_str ''aaaa bbbb cccc'') 1 1 ! 1) = [py_str ''aaaa'', py_str ''bbbb''] \<and>
   py_split (chunk_text (py_str ''aaaa bbbb cccc'') 1 1 ! Suc 1) = [py_str ''bbbb'', py_str ''cccc''] \<and>
   take 1 (py_split (chunk_text (py_str ''aaaa bbbb cccc'') 1 1 ! Suc 1)) =
     drop 1 (py_split (chunk_text (py_str ''aaaa bbbb cccc'') 1 1 ! 1))"
  using chunk_text_overlap_rule[of 1 "py_str ''aaaa bbbb cccc''" 1 1]
  by (simp add: chunk_text_eval_overlap py_split_eval_two py_split_eval_two' Let_def)

text \<open>
  Claim C2 says that the chunks, each after the first without its leading
  \<open>min(overlap, len(previous chunk))\<close> words, concatenate to the words of the text. With
  \<open>overlap = 0\<close> the slice \<open>current_chunk[-0:]\<close> is the whole chunk, so the new chunk repeats
  all of the previous one while no word is to be removed: the text \<open>"aaaa bbbb"\<close> with
  target size 1 gives the chunks \<open>"aaaa"\<close> and \<open>"aaaa bbbb"\<close>, whose de-overlapped words are
  \<open>aaaa aaaa bbbb\<close>. For an overlap of at least 1 the reconstruction holds
  (\<open>chunk_text_deoverlap\<close> above).
\<close>

theorem chunk_text_overlap_zero_repeats:
  "chunk_text (py_str ''aaaa bbbb'') 1 0 = [py_str ''aaaa'', py_str ''aaaa bbbb''] \<and>
   deoverlap 0 (map py_split (chunk_text (py_str ''aaaa bbbb'') 1 0)) =
     [py_str ''aaaa'', py_str ''aaaa'', py_str ''bbbb''] \<and>
   py_split (py_str ''aaaa bbbb'') = [py_str ''aaaa'', py_str ''bbbb''] \<and>
   deoverlap 0 (map py_split (chunk_text (py_str ''aaaa bbbb'') 1 0)) \<noteq> py_split (py_str ''aaaa bbbb'')"
  by (simp add: chunk_text_def py_split_def py_str_def isspace_def word_length_def slice_from_def
      deoverlap_def)

lemma chunk_words_keeps_occurrences:
  "mset ws + mset cur + mset (concat chs) \<subseteq>#
   mset (concat (chunk_words cs ov ws chs cur len))"
proof (induction ws arbitrary: chs cur len)
  case Nil
  show ?case by simp
next
  case (Cons w ws)
  show ?case
  proof (cases "len + word_length w > cs \<and> cur \<noteq> []")
    case True
    define seed where
      "seed = (if int (length cur) > ov then slice_from cur (- ov) else cur)"
    have eq: "mset ws + mset (seed @ [w]) + mset (concat (chs @ [cur])) =
          mset seed + (mset (w # ws) + mset cur + mset (concat chs))"
      by (simp add: ac_simps)
    have "mset (w # ws) + mset cur + mset (concat chs) \<subseteq>#
          mset ws + mset (seed @ [w]) + mset (concat (chs @ [cur]))"
      unfolding eq by (rule mset_subset_eq_add_right)
    also have "\<dots> \<subseteq># mset (concat (chunk_words cs ov ws (chs @ [cur]) (seed @ [w])
                  (sum_list (map word_length (seed @ [w])))))"
      by (rule Cons.IH)
    finally show ?thesis
      using True unfolding seed_def by (simp add: Let_def)
  next
    case False
    have "mset (w # ws) + mset cur + mset (concat chs) =
          mset ws + mset (cur @ [w]) + mset (concat chs)"
      by simp
    also have "\<dots> \<subseteq># mset (concat (chunk_words cs ov ws chs (cur @ [w]) (len + word_length w)))"
      by (rule Cons.IH)
    finally show ?thesis
      using False by auto
  qed
qed

lemma chunk_text_keeps_occurrences:
  "mset (py_split txt) \<subseteq># mset (concat (map py_split (chunk_text txt cs ov)))"
  using chunk_words_keeps_occurrences[of "py_split txt" "[]" "[]" cs ov 0]
  by (simp add: split_chunk_text)

lemma chunk_text_eval_repeat:
  "chunk_text (py_str ''to be to'') 1 1 = [py_str ''to be to'']"
  by (simp add: chunk_text_def py_split_def py_str_def isspace_def word_length_def)

lemma py_split_eval_repeat:
  "py_split (py_str ''to be to'') = [py_str ''to'', py_str ''be'', py_str ''to'']"
  by (simp add: py_split_def py_str_def isspace_def)

lemma py_split_eval_long: "py_split (py_str ''aaaaaaaa'') = [py_str ''aaaaaaaa'']"
  by (simp add: py_split_def py_str_def isspace_def)

text \<open>
  Claim C7. A text that is a single word whose cost exceeds the target size comes back as
  exactly one chunk, the word itself; and no word of any text is dropped: the words of the
  text, counted with their repetitions, are among the words of the chunks (so every word
  is a word of some chunk).
\<close>

theorem chunk_text_keeps_every_word:
  "(py_split txt = [word] \<and> chunk_size < word_length word \<longrightarrow>
      chunk_text txt chunk_size overlap = [word]) \<and>
   mset (py_split txt) \<subseteq># mset (concat (map py_split (chunk_text txt chunk_size overlap))) \<and>
   (\<forall>w\<in>set (py_split txt). \<exists>c\<in>set (chunk_text txt chunk_size overlap). w \<in> set (py_split c))"
  using chunk_text_single[of "txt" "word" "chunk_size" "overlap"]
    chunk_text_keeps[of _ "txt" "chunk_size" "overlap"]
    chunk_text_keeps_occurrences[of "txt" "chunk_size" "overlap"]
  by blast

text \<open>
  Instances of C7: the word \<open>aaaaaaaa\<close> of cost 2 with target size 1, and the text
  \<open>to be to\<close>, whose chunks hold \<open>to\<close> twice.
\<close>

theorem chunk_text_keeps_every_word_witness:
  "py_split (py_str ''aaaaaaaa'') = [py_str ''aaaaaaaa''] \<and>
   1 < word_length (py_str ''aaaaaaaa'') \<and>
   chunk_text (py_str ''aaaaaaaa'') 1 50 = [py_str ''aaaaaaaa''] \<and>
   mset [py_str ''aaaaaaaa''] \<subseteq>#
     mset (concat (map py_split (chunk_text (py_str ''aaaaaaaa'') 1 50))) \<and>
   mset [py_str ''to'', py_str ''be'', py_str ''to''] \<subseteq>#
     mset (concat (map py_split (chunk_text (py_str ''to be to'') 1 1))) \<and>
   concat (map py_split (chunk_text (py_str ''to be to'') 1 1)) =
     [py_str ''to'', py_str ''be'', py_str ''to'']"
proof -
  have w: "1 < word_length (py_str ''aaaaaaaa'')"
    by (simp add: word_length_def py_str_def)
  have one: "py_split (py_str ''aaaaaaaa'') = [py_str ''aaaaaaaa''] \<and>
      chunk_text (py_str ''aaaaaaaa'') 1 50 = [py_str ''aaaaaaaa''] \<and>
      mset [py_str ''aaaaaaaa''] \<subseteq>#
        mset (concat (map py_split (chunk_text (py_str ''aaaaaaaa'') 1 50)))"
    using chunk_text_keeps_every_word[of "py_str ''aaaaaaaa''" "py_str ''aaaaaaaa''" 1 50] w
    by (simp add: py_split_eval_long)
  have two: "mset [py_str ''to'', py_str ''be'', py_str ''to''] \<subseteq>#
      mset (concat (map py_split (chunk_text (py_str ''to be to'') 1 1)))"
    using chunk_text_keeps_every_word[of "py_str ''to be to''" "py_str ''to''" 1 1]
    by (simp add: py_split_eval_repeat)
  have three: "concat (map py_split (chunk_text (py_str ''to be to'') 1 1)) =
     [py_str ''to'', py_str ''be'', py_str ''to'']"
    by (simp add: chunk_text_eval_repeat py_split_eval_repeat)
  show ?thesis
    using w one two three by blast
qed

section \<open>The services\<close>

lemma get_embedding_ok:
  "get_embedding env w t = (Inr e, w1) \<Longrightarrow>
   w1 = w\<lparr>trace := trace w @ [EmbeddingsPost (Single t)]\<rparr>"
  by (auto simp: get_embedding_def Let_def split: if_splits sum.splits list.splits)

lemma get_embeddings_batch_ok:
  "get_embeddings_batch env w ts = (Inr e, w1) \<Longrightarrow>
   w1 = w\<lparr>trace := trace w @ [EmbeddingsPost (Batch ts)]\<rparr>"
  by (auto simp: get_embeddings_batch_def Let_def split: if_splits sum.splits)

lemma get_embeddings_batch_world:
  "get_embeddings_batch env w ts = (r, w1) \<Longrightarrow>
   files w1 = files w \<and> rows w1 = rows w \<and> index w1 = index w"
  by (auto simp: get_embeddings_batch_def Let_def split: if_splits sum.splits)

lemma get_embeddings_batch_errors:
  "get_embeddings_batch env w ts = (Inl e, w1) \<Longrightarrow>
   e = ApiKeyNotSet \<or> (\<exists>m. e = External m) \<or> (\<exists>b. e = EmbeddingApiError b)"
  by (auto simp: get_embeddings_batch_def Let_def split: if_splits sum.splits)

lemma extract_text_errors:
  "extract_text env content ftype = Inl e \<Longrightarrow>
   e = PdfNotInstalled \<or> e = DocxNotInstalled \<or> (\<exists>m. e = External m) \<or>
   (\<exists>t. e = UnsupportedFileType t)"
  by (auto simp: extract_text_def extract_from_pdf_def extract_from_docx_def Let_def
      split: if_splits sum.splits)

lemma add_documents_errors:
  "add_documents self env w d ids embs chunks metas = (Inl e, w1) \<Longrightarrow>
   index w1 = index w \<and> rows w1 = rows w \<and> files w1 = files w \<and>
   (e = VectorDBNotInitialized \<or> (\<exists>m. e = External m))"
  by (auto simp: add_documents_def Let_def split: if_splits option.splits)

lemma add_documents_ok:
  "add_documents self env w d ids embs chunks metas = (Inr u, w1) \<Longrightarrow>
   has_collection self \<and> rows w1 = rows w \<and> files w1 = files w \<and>
   trace w1 = trace w @ [CollectionAdd ids] \<and>
   index w1 = index w @ [\<lparr>batch_ids = ids, batch_embeddings = embs,
                            batch_documents = chunks, batch_metadatas = metas\<rparr>]"
  by (auto simp: add_documents_def Let_def split: if_splits option.splits)

lemma chunk_text_nonempty:
  "py_strip txt \<noteq> [] \<Longrightarrow> chunk_text txt cs ov \<noteq> []"
  unfolding chunk_text_def
  by (rule chunk_loop_nonempty) (simp add: py_split_nonempty py_strip_nonempty)

lemma create_document_never_no_chunks:
  "fst (create_document env db filename file_content ftype) \<noteq> Inl NoChunksCreated"
proof
  assume a: "fst (create_document env db filename file_content ftype) = Inl NoChunksCreated"
  obtain r w where rw: "create_document env db filename file_content ftype = (r, w)"
    by (cases "create_document env db filename file_content ftype")
  with a have r: "r = Inl NoChunksCreated" by simp
  show False
    using rw unfolding r create_document_def Let_def
    by (auto split: option.splits sum.splits if_splits prod.splits
        dest: extract_text_errors get_embeddings_batch_errors add_documents_errors
        simp: chunk_text_nonempty)
qed

section \<open>The claims on ingestion and query\<close>

text \<open>
  Claim C10. A text with a character that is not whitespace (equally: whose \<open>strip()\<close> is
  not empty, the check of \<open>create_document\<close>) gives at least one chunk, so
  \<open>create_document\<close> never raises "No chunks created from document".
\<close>

theorem no_chunks_branch_unreachable:
  "((\<exists>c\<in>set txt. \<not> isspace c) \<longrightarrow> chunk_text txt chunk_size overlap \<noteq> []) \<and>
   (py_strip txt \<noteq> [] \<longrightarrow> chunk_text txt chunk_size overlap \<noteq> []) \<and>
   fst (create_document env db filename file_content ftype) \<noteq> Inl NoChunksCreated"
  using chunk_text_nonempty[of "txt" "chunk_size" "overlap"]
    create_document_never_no_chunks[of env db filename file_content ftype]
  by (simp add: py_strip_nonempty)

text \<open>
  An instance of C10: the text \<open>a\<close>.
\<close>

theorem no_chunks_branch_unreachable_witness:
  "(\<exists>c\<in>set (py_str ''a''). \<not> isspace c) \<and> py_strip (py_str ''a'') \<noteq> [] \<and>
   chunk_text (py_str ''a'') 500 50 \<noteq> [] \<and>
   fst (create_document test_env empty_world (py_str ''a.txt'') (py_str ''a'') (py_str ''txt''))
     \<noteq> Inl NoChunksCreated"
proof -
  have h: "\<exists>c\<in>set (py_str ''a''). \<not> isspace c"
    by (simp add: py_str_def isspace_def)
  have s: "py_strip (py_str ''a'') \<noteq> []"
    by (simp add: py_strip_def py_str_def isspace_def)
  from no_chunks_branch_unreachable[of "py_str ''a''" 500 50 test_env empty_world
      "py_str ''a.txt''" "py_str ''a''" "py_str ''txt''"] h s
  show ?thesis by simp
qed

lemma test_env_embedding:
  "get_embedding test_env w (py_str ''q'') =
     (Inr [0], w\<lparr>trace := trace w @ [EmbeddingsPost (Single (py_str ''q''))]\<rparr>)"
  by (simp add: get_embedding_def test_env_def default_settings_def py_str_def Let_def)

lemma test_env_query:
  "vdb_query (VectorDBService True) test_env w emb n =
     (Inr (if index w = [] then no_hit else one_hit), w\<lparr>trace := trace w @ [CollectionQuery n]\<rparr>)"
  by (simp add: vdb_query_def test_env_def Let_def)

text \<open>
  Claim C4. When the vector database answers the query with no chunk, the route returns the
  fixed answer with empty \<open>chunks_used\<close> and \<open>document_ids\<close>; the calls it made are the
  embedding request and the collection query, and none to the completion service.
\<close>

theorem empty_result_short_circuit:
  assumes "vector_db_service env = Some self"
    and "get_embedding env w (question q) = (Inr emb, w1)"
    and "vdb_query self env w1 emb (min (max (top_k q) 1) (MAX_TOP_K (settings env))) =
           (Inr results, w2)"
    and "no_chunks results"
  shows "query_documents env w q =
           (Inr \<lparr>answer = py_str ''No relevant documents found in the database.'',
                 chunks_used = [], document_ids = [], model = LLM_MODEL (settings env)\<rparr>, w2) \<and>
         trace w2 = trace w @ [EmbeddingsPost (Single (question q)),
                               CollectionQuery (min (max (top_k q) 1) (MAX_TOP_K (settings env)))] \<and>
         completion_calls w2 = completion_calls w"
proof -
  have w1: "w1 = w\<lparr>trace := trace w @ [EmbeddingsPost (Single (question q))]\<rparr>"
    using assms(2) by (rule get_embedding_ok)
  have w2: "trace w2 = trace w1 @ [CollectionQuery (min (max (top_k q) 1) (MAX_TOP_K (settings env)))]"
    using assms(3) by (auto simp: vdb_query_def Let_def split: if_splits sum.splits)
  have res: "query_try self env w q =
           (Inr \<lparr>answer = py_str ''No relevant documents found in the database.'',
                 chunks_used = [], document_ids = [], model = LLM_MODEL (settings env)\<rparr>, w2)"
    using assms(2,3,4)
    by (simp add: query_try_def Let_def no_chunks_def split: dict_entry.splits list.splits)
  show ?thesis
    using res w1 w2 assms(1) by (simp add: query_documents_def completion_calls_def)
qed

text \<open>
  An instance of C4: a query against the empty collection.
\<close>

theorem empty_result_short_circuit_witness:
  "vector_db_service test_env = Some (VectorDBService True) \<and>
   get_embedding test_env empty_world (question \<lparr>question = py_str ''q'', top_k = 5\<rparr>) =
     (Inr [0], empty_world\<lparr>trace := [EmbeddingsPost (Single (py_str ''q''))]\<rparr>) \<and>
   vdb_query (VectorDBService True) test_env
       (empty_world\<lparr>trace := [EmbeddingsPost (Single (py_str ''q''))]\<rparr>) [0] 5 =
     (Inr no_hit, empty_world\<lparr>trace := [EmbeddingsPost (Single (py_str ''q'')), CollectionQuery 5]\<rparr>) \<and>
   no_chunks no_hit \<and>
   query_documents test_env empty_world \<lparr>question = py_str ''q'', top_k = 5\<rparr> =
     (Inr \<lparr>answer = py_str ''No relevant documents found in the database.'',
           chunks_used = [], document_ids = [], model = py_str ''openai/gpt-4o-mini''\<rparr>,
      empty_world\<lparr>trace := [EmbeddingsPost (Single (py_str ''q'')), CollectionQuery 5]\<rparr>) \<and>
   completion_calls (empty_world\<lparr>trace := [EmbeddingsPost (Single (py_str ''q'')), CollectionQuery 5]\<rparr>) = 0"
proof -
  let ?q = "\<lparr>question = py_str ''q'', top_k = 5\<rparr>"
  let ?w1 = "empty_world\<lparr>trace := [EmbeddingsPost (Single (py_str ''q''))]\<rparr>"
  let ?w2 = "empty_world\<lparr>trace := [EmbeddingsPost (Single (py_str ''q'')), CollectionQuery 5]\<rparr>"
  have a: "vector_db_service test_env = Some (VectorDBService True)"
    by (simp add: test_env_def)
  have b: "get_embedding test_env empty_world (question ?q) = (Inr [0], ?w1)"
    by (simp add: test_env_embedding empty_world_def)
  have k: "min (max (top_k ?q) 1) (MAX_TOP_K (settings test_env)) = 5"
    by (simp add: test_env_def default_settings_def)
  have c: "vdb_query (VectorDBService True) test_env ?w1 [0]
             (min (max (top_k ?q) 1) (MAX_TOP_K (settings test_env))) = (Inr no_hit, ?w2)"
    unfolding k by (simp add: test_env_query empty_world_def)
  have d: "no_chunks no_hit"
    by (simp add: no_chunks_def no_hit_def)
  have m: "LLM_MODEL (settings test_env) = py_str ''openai/gpt-4o-mini''"
    by (simp add: test_env_def default_settings_def)
  from empty_result_short_circuit[OF a b c d] a b c d
  show ?thesis
    unfolding k m by (simp add: completion_calls_def empty_world_def)
qed

lemma generate_answer_trace:
  "\<exists>rest. trace (snd (generate_answer env w q cs)) = trace w @ rest \<and>
          (\<forall>n. CollectionQuery n \<notin> set rest)"
  by (auto simp: generate_answer_def Let_def split: sum.splits option.splits)

lemma snd_answer_case:
  "snd (case x of (Inl e, w3) \<Rightarrow> (Inl e, w3) | (Inr (a, m), w3) \<Rightarrow> (Inr (f a m), w3)) = snd x"
  by (cases x) (auto split: sum.splits)

lemma query_try_world:
  assumes "has_collection self"
    and "get_embedding env w (question q) = (Inr emb, w1)"
  defines "w2 \<equiv> w1\<lparr>trace := trace w1 @
             [CollectionQuery (min (max (top_k q) 1) (MAX_TOP_K (settings env)))]\<rparr>"
  shows "snd (query_try self env w q) = w2 \<or>
         (\<exists>cs. snd (query_try self env w q) = snd (generate_answer env w2 (question q) cs))"
  using assms(1,2) unfolding w2_def query_try_def vdb_query_def Let_def
  by (auto simp: snd_answer_case split: sum.splits dict_entry.splits list.splits)

lemma clamp_idem: "min (max (min (max (t::int) 1) m) 1) m = min (max t 1) m"
  by arith

lemma snd_route_case:
  "snd (case x of (Inl e, w') \<Rightarrow> (Inl (g e), w') | (Inr r, w') \<Rightarrow> (Inr r, w')) = snd x"
  by (cases x) (auto split: sum.splits)

text \<open>
  Claim C5. The number of results asked of the collection is
  \<open>min(max(top_k, 1), MAX_TOP_K)\<close>, and the collection is queried once; with
  \<open>1 \<le> MAX_TOP_K\<close> that number lies in \<open>[1, MAX_TOP_K]\<close>; \<open>top_k = 1000\<close> with
  \<open>MAX_TOP_K = 10\<close> asks for 10; and the request is answered as the request with the
  clamped \<open>top_k\<close> is, so no \<open>top_k\<close> is rejected.
\<close>

theorem top_k_clamped:
  assumes "vector_db_service env = Some self"
    and "has_collection self"
    and "get_embedding env w (question q) = (Inr emb, w1)"
  shows "(\<exists>rest. trace (snd (query_documents env w q)) =
             trace w1 @ CollectionQuery (min (max (top_k q) 1) (MAX_TOP_K (settings env))) # rest \<and>
             (\<forall>n. CollectionQuery n \<notin> set rest)) \<and>
         (1 \<le> MAX_TOP_K (settings env) \<longrightarrow>
            1 \<le> min (max (top_k q) 1) (MAX_TOP_K (settings env)) \<and>
            min (max (top_k q) 1) (MAX_TOP_K (settings env)) \<le> MAX_TOP_K (settings env)) \<and>
         (top_k q = 1000 \<and> MAX_TOP_K (settings env) = 10 \<longrightarrow>
            min (max (top_k q) 1) (MAX_TOP_K (settings env)) = 10) \<and>
         query_documents env w q =
           query_documents env w (q\<lparr>top_k := min (max (top_k q) 1) (MAX_TOP_K (settings env))\<rparr>)"
proof -
  let ?k = "min (max (top_k q) 1) (MAX_TOP_K (settings env))"
  let ?w2 = "w1\<lparr>trace := trace w1 @ [CollectionQuery ?k]\<rparr>"
  have route: "snd (query_documents env w q) = snd (query_try self env w q)"
    using assms(1) by (simp add: query_documents_def snd_route_case)
  have tr: "\<exists>rest. trace (snd (query_try self env w q)) = trace w1 @ CollectionQuery ?k # rest \<and>
             (\<forall>n. CollectionQuery n \<notin> set rest)"
    using query_try_world[OF assms(2,3)]
  proof
    assume "snd (query_try self env w q) = ?w2"
    then show ?thesis by simp
  next
    assume "\<exists>cs. snd (query_try self env w q) = snd (generate_answer env ?w2 (question q) cs)"
    then obtain cs where cs: "snd (query_try self env w q) = snd (generate_answer env ?w2 (question q) cs)"
      by blast
    from generate_answer_trace[of env ?w2 "question q" cs]
    obtain rest where "trace (snd (generate_answer env ?w2 (question q) cs)) = trace ?w2 @ rest"
      and "\<forall>n. CollectionQuery n \<notin> set rest"
      by blast
    with cs show ?thesis by simp
  qed
  have same: "query_try self env w (q\<lparr>top_k := ?k\<rparr>) = query_try self env w q"
    by (simp add: query_try_def Let_def clamp_idem
        cong: prod.case_cong sum.case_cong dict_entry.case_cong list.case_cong if_cong)
  have eq: "query_documents env w q = query_documents env w (q\<lparr>top_k := ?k\<rparr>)"
    using assms(1) same by (simp add: query_documents_def)
  show ?thesis
    using route tr eq by auto
qed

text \<open>
  An instance of C5: \<open>top_k = 1000\<close> with the default \<open>MAX_TOP_K = 10\<close>.
\<close>

theorem top_k_clamped_witness:
  "vector_db_service test_env = Some (VectorDBService True) \<and>
   has_collection (VectorDBService True) \<and>
   get_embedding test_env empty_world (question \<lparr>question = py_str ''q'', top_k = 1000\<rparr>) =
     (Inr [0], empty_world\<lparr>trace := [EmbeddingsPost (Single (py_str ''q''))]\<rparr>) \<and>
   top_k \<lparr>question = py_str ''q'', top_k = 1000\<rparr> = 1000 \<and>
   MAX_TOP_K (settings test_env) = 10 \<and>
   trace (snd (query_documents test_env empty_world \<lparr>question = py_str ''q'', top_k = 1000\<rparr>)) =
     [EmbeddingsPost (Single (py_str ''q'')), CollectionQuery 10]"
proof -
  let ?q = "\<lparr>question = py_str ''q'', top_k = 1000\<rparr>"
  let ?w1 = "empty_world\<lparr>trace := [EmbeddingsPost (Single (py_str ''q''))]\<rparr>"
  have a: "vector_db_service test_env = Some (VectorDBService True)"
    by (simp add: test_env_def)
  have b: "has_collection (VectorDBService True)"
    by simp
  have c: "get_embedding test_env empty_world (question ?q) = (Inr [0], ?w1)"
    by (simp add: test_env_embedding empty_world_def)
  have m: "MAX_TOP_K (settings test_env) = 10"
    by (simp add: test_env_def default_settings_def)
  have run: "trace (snd (query_documents test_env empty_world ?q)) =
     [EmbeddingsPost (Single (py_str ''q'')), CollectionQuery 10]"
    by (simp add: query_documents_def query_try_def a test_env_embedding test_env_query m
        empty_world_def no_hit_def Let_def)
  from top_k_clamped[OF a b c] a b c m run
  show ?thesis by simp
qed

text \<open>
  Claim C6. Every chunk of the response carries the identifier at its position in the
  result and the score \<open>round(1 - distance, 4)\<close> of the distance at that position. The float
  subtraction and \<open>round\<close> are those of the environment.
\<close>

theorem similarity_score_rounding:
  assumes "vector_db_service env = Some self"
    and "get_embedding env w (question q) = (Inr emb, w1)"
    and "vdb_query self env w1 emb (min (max (top_k q) 1) (MAX_TOP_K (settings env))) =
           (Inr results, w2)"
    and "result_ids results = Val (ids # more_ids)"
    and "result_distances results = Val (distances # more_distances)"
    and "query_documents env w q = (Inr response, w3)"
  shows "\<forall>i < length (chunks_used response).
           i < length ids \<and> i < length distances \<and>
           chunk_id (chunks_used response ! i) = ids ! i \<and>
           similarity_score (chunks_used response ! i) =
             float_round env (int_minus_float env 1 (distances ! i)) 4"
proof -
  have run: "query_try self env w q = (Inr response, w3)"
    using assms(1,6) by (auto simp: query_documents_def split: prod.splits sum.splits)
  show ?thesis
  proof (cases "ids = []")
    case True
    with run assms(2,3,4) have "chunks_used response = []"
      by (auto simp: query_try_def Let_def)
    then show ?thesis by simp
  next
    case False
    with run assms(2,3,4,5) obtain chunks_text where
      used: "chunks_used response =
        map (\<lambda>(cid, ctext, score).
               \<lparr>chunk_id = cid, chunk_info_text = ctext,
                similarity_score = float_round env score 4\<rparr>)
          (zip ids (zip chunks_text (map (\<lambda>dist. int_minus_float env 1 dist) distances)))"
      by (auto simp: query_try_def Let_def first_of_def split: sum.splits prod.splits)
    show ?thesis
      unfolding used by simp
  qed
qed

lemma test_env_answer:
  "generate_answer test_env w qn cs =
     (Inr (py_str ''42'', py_str ''openai/gpt-4o-mini''),
      w\<lparr>trace := trace w @ [ChatCompletionsPost (py_str ''openai/gpt-4o-mini'')
         (build_prompt (py_join [10, 10]
            (map (\<lambda>(i, chunk). py_str ''[Chunk '' @ str_of_nat (i + 1) @ py_str '']: '' @ chunk)
               (enumerate 0 cs))) qn)]\<rparr>)"
  by (simp add: generate_answer_def test_env_def default_settings_def Let_def py_str_def)

text \<open>
  An instance of C6: one chunk at distance 0.25 is reported with the score 0.75.
\<close>

theorem similarity_score_rounding_witness:
  "vector_db_service test_env = Some (VectorDBService True) \<and>
   result_ids one_hit = Val [[py_str ''d1_chunk_0'']] \<and>
   result_distances one_hit = Val [[0.25]] \<and>
   chunks_used (projr (fst (query_documents test_env one_doc_world
       \<lparr>question = py_str ''q'', top_k = 5\<rparr>))) =
     [\<lparr>chunk_id = py_str ''d1_chunk_0'', chunk_info_text = py_str ''aaaa bbbb'',
       similarity_score = 0.75\<rparr>] \<and>
   float_round test_env (int_minus_float test_env 1 0.25) 4 = 0.75"
proof -
  let ?q = "\<lparr>question = py_str ''q'', top_k = 5\<rparr>"
  let ?w1 = "one_doc_world\<lparr>trace := [EmbeddingsPost (Single (py_str ''q''))]\<rparr>"
  let ?w2 = "one_doc_world\<lparr>trace := [EmbeddingsPost (Single (py_str ''q'')), CollectionQuery 5]\<rparr>"
  have a: "vector_db_service test_env = Some (VectorDBService True)"
    by (simp add: test_env_def)
  have b: "get_embedding test_env one_doc_world (question ?q) = (Inr [0], ?w1)"
    by (simp add: test_env_embedding one_doc_world_def)
  have k: "min (max (top_k ?q) 1) (MAX_TOP_K (settings test_env)) = 5"
    by (simp add: test_env_def default_settings_def)
  have c: "vdb_query (VectorDBService True) test_env ?w1 [0]
             (min (max (top_k ?q) 1) (MAX_TOP_K (settings test_env))) = (Inr one_hit, ?w2)"
    unfolding k by (simp add: test_env_query one_doc_world_def)
  have d: "result_ids one_hit = Val ([py_str ''d1_chunk_0''] # [])"
    by (simp add: one_hit_def)
  have e: "result_distances one_hit = Val ([0.25] # [])"
    by (simp add: one_hit_def)
  have r: "float_round test_env (int_minus_float test_env 1 0.25) 4 = 0.75"
    by (simp add: test_env_def)
  let ?r = "\<lparr>answer = py_str ''42'',
      chunks_used = [\<lparr>chunk_id = py_str ''d1_chunk_0'', chunk_info_text = py_str ''aaaa bbbb'',
        similarity_score = 0.75\<rparr>],
      document_ids = [py_str ''d1''], model = py_str ''openai/gpt-4o-mini''\<rparr>"
  have f: "fst (query_documents test_env one_doc_world ?q) = Inr ?r"
    using r
    by (simp add: query_documents_def query_try_def a test_env_embedding test_env_query k
        first_of_def test_env_answer one_hit_def one_doc_world_def Let_def)
      (simp add: test_env_def)
  have run: "query_documents test_env one_doc_world ?q =
      (Inr ?r, snd (query_documents test_env one_doc_world ?q))"
    using f by (metis prod.collapse)
  have used: "chunks_used (projr (fst (query_documents test_env one_doc_world ?q))) =
      [\<lparr>chunk_id = py_str ''d1_chunk_0'', chunk_info_text = py_str ''aaaa bbbb'',
        similarity_score = 0.75\<rparr>]"
    by (simp add: f)
  from similarity_score_rounding[OF a b c d e run] a d e r run used
  show ?thesis by simp
qed

section \<open>Ingestion and the vector database\<close>

lemma create_document_success:
  assumes "create_document env w filename file_content ftype = (Inr doc, w')"
  shows "document_id doc = uuid4 env \<and> 0 \<le> chunk_count doc \<and> rows w' = rows w @ [doc] \<and>
         (case vector_db_service env of
            None \<Rightarrow> index w' = index w
          | Some self \<Rightarrow>
              has_collection self \<and>
              (\<exists>added. index w' = index w @ [added] \<and>
                 batch_ids added =
                   map (\<lambda>i. uuid4 env @ py_str ''_chunk_'' @ str_of_nat i)
                     [0..<nat (chunk_count doc)]))"
  using assms unfolding create_document_def Let_def
  by (auto split: option.splits sum.splits if_splits prod.splits
      dest!: add_documents_ok get_embeddings_batch_world)

lemma find_fresh:
  "x \<notin> f ` set xs \<Longrightarrow> f d = x \<Longrightarrow> find (\<lambda>r. f r = x) (xs @ [d]) = Some d"
  by (induction xs) auto

lemma get_chunks_trace:
  "has_collection self \<Longrightarrow>
   trace (snd (get_chunks self env w ids)) = trace w @ [CollectionGet ids]"
  by (simp add: get_chunks_def Let_def split: sum.splits)

lemma get_document_world:
  assumes "find (\<lambda>d. document_id d = doc_id) (rows w) = Some doc"
    and "vector_db_service env = Some self"
  shows "snd (get_document env w doc_id) =
         snd (get_chunks self env w
                (map (\<lambda>i. doc_id @ py_str ''_chunk_'' @ str_of_nat i) [0..<nat (chunk_count doc)]))"
  using assms
  by (simp add: get_document_def Let_def split: prod.splits sum.splits)

lemma py_str_eq_Nil: "py_str s = [] \<longleftrightarrow> s = []"
  by (simp add: py_str_def)

lemma chunk_text_eval_default:
  "chunk_text (py_str ''aaaa bbbb'') 500 50 = [py_str ''aaaa bbbb'']"
  by (simp add: chunk_text_def py_split_def py_str_def isspace_def word_length_def)

lemma py_strip_eval: "py_strip (py_str ''aaaa bbbb'') = py_str ''aaaa bbbb''"
  by (simp add: py_strip_def py_str_def isspace_def)

lemma file_ext_eval:
  "py_in (py_str ''pdf'') (py_str ''txt'') = False \<and>
   py_in (py_str ''wordprocessingml'') (py_str ''txt'') = False \<and>
   py_in (py_str ''docx'') (py_str ''txt'') = False"
  by (simp add: py_str_def)

lemma path_eval:
  "path_join (py_str ''./documents'') (py_str ''d1'' @ py_str ''.'' @ py_str ''txt'') =
     py_str ''./documents/d1.txt''"
  by (simp add: path_join_def py_str_def)

lemma chunk_id_eval: "py_str ''d1'' @ py_str ''_chunk_'' @ str_of_nat 0 = py_str ''d1_chunk_0''"
  by (simp add: py_str_def str_of_nat.simps)

lemma no_service_run:
  "create_document no_service_env empty_world (py_str ''a.txt'') (py_str ''aaaa bbbb'') (py_str ''txt'') =
     (Inr the_doc,
      \<lparr>files = [(py_str ''./documents/d1.txt'', py_str ''aaaa bbbb'')],
       rows = [the_doc], index = [],
       trace = [EmbeddingsPost (Batch [py_str ''aaaa bbbb''])]\<rparr>)"
  unfolding create_document_def Let_def
  by (simp add: no_service_env_def test_env_def default_settings_def empty_world_def the_doc_def
      extract_text_def get_embeddings_batch_def Let_def
      file_ext_eval path_eval py_strip_eval chunk_text_eval_default py_str_eq_Nil)


lemma ready_run:
  "create_document test_env empty_world (py_str ''a.txt'') (py_str ''aaaa bbbb'') (py_str ''txt'') =
     (Inr the_doc,
      \<lparr>files = [(py_str ''./documents/d1.txt'', py_str ''aaaa bbbb'')],
       rows = [the_doc],
       index = [\<lparr>batch_ids = [py_str ''d1_chunk_0''], batch_embeddings = [[0]],
                 batch_documents = [py_str ''aaaa bbbb''],
                 batch_metadatas =
                   [\<lparr>meta_document_id = py_str ''d1'', chunk_index = 0,
                     meta_filename = py_str ''a.txt''\<rparr>]\<rparr>],
       trace = [EmbeddingsPost (Batch [py_str ''aaaa bbbb'']),
                CollectionAdd [py_str ''d1_chunk_0'']]\<rparr>)"
  unfolding create_document_def Let_def
  by (simp add: test_env_def default_settings_def empty_world_def the_doc_def
      extract_text_def get_embeddings_batch_def add_documents_def Let_def
      file_ext_eval path_eval py_strip_eval chunk_text_eval_default py_str_eq_Nil chunk_id_eval)

lemma failing_add_run:
  "create_document failing_add_env empty_world (py_str ''a.txt'') (py_str ''aaaa bbbb'') (py_str ''txt'') =
     (Inl (External (py_str ''add failed'')),
      \<lparr>files = [(py_str ''./documents/d1.txt'', py_str ''aaaa bbbb'')],
       rows = [], index = [],
       trace = [EmbeddingsPost (Batch [py_str ''aaaa bbbb'']),
                CollectionAdd [py_str ''d1_chunk_0'']]\<rparr>)"
  unfolding create_document_def Let_def
  by (simp add: failing_add_env_def test_env_def default_settings_def empty_world_def
      extract_text_def get_embeddings_batch_def add_documents_def Let_def
      file_ext_eval path_eval py_strip_eval chunk_text_eval_default py_str_eq_Nil chunk_id_eval)

lemma no_collection_run:
  "create_document no_collection_env empty_world (py_str ''a.txt'') (py_str ''aaaa bbbb'') (py_str ''txt'') =
     (Inl VectorDBNotInitialized,
      \<lparr>files = [(py_str ''./documents/d1.txt'', py_str ''aaaa bbbb'')],
       rows = [], index = [],
       trace = [EmbeddingsPost (Batch [py_str ''aaaa bbbb''])]\<rparr>)"
  unfolding create_document_def Let_def
  by (simp add: no_collection_env_def test_env_def default_settings_def empty_world_def
      extract_text_def get_embeddings_batch_def add_documents_def Let_def
      file_ext_eval path_eval py_strip_eval chunk_text_eval_default py_str_eq_Nil chunk_id_eval)

text \<open>
  Claim C3, amended. For a document that \<open>create_document\<close> returns, with an identifier
  not yet among the rows: when \<open>vector_db_service\<close> is not \<open>None\<close>, the identifiers added to
  the collection are \<open>f"{document_id}_chunk_{i}"\<close> for \<open>i\<close> in \<open>[0, chunk_count)\<close>, and the
  detail route asks the collection for exactly these; when it is \<open>None\<close>, the collection
  gains no identifier.
\<close>

theorem chunk_ids_reconstructible:
  assumes "create_document env w filename file_content ftype = (Inr doc, w')"
    and "uuid4 env \<notin> document_id ` set (rows w)"
  shows "(vector_db_service env \<noteq> None \<longrightarrow>
            stored_ids w' =
              stored_ids w @
              map (\<lambda>i. document_id doc @ py_str ''_chunk_'' @ str_of_nat i) [0..<nat (chunk_count doc)] \<and>
            trace (snd (get_document env w' (document_id doc))) =
              trace w' @
              [CollectionGet
                 (map (\<lambda>i. document_id doc @ py_str ''_chunk_'' @ str_of_nat i)
                    [0..<nat (chunk_count doc)])]) \<and>
         (vector_db_service env = None \<longrightarrow> stored_ids w' = stored_ids w)"
proof -
  note s = create_document_success[OF assms(1)]
  from s have id: "document_id doc = uuid4 env" and rows: "rows w' = rows w @ [doc]"
    by simp_all
  have found: "find (\<lambda>d. document_id d = document_id doc) (rows w') = Some doc"
    unfolding rows using assms(2) id by (intro find_fresh) simp_all
  show ?thesis
  proof (cases "vector_db_service env")
    case None
    with s show ?thesis by (simp add: stored_ids_def)
  next
    case (Some self)
    with s obtain added where coll: "has_collection self"
      and ix: "index w' = index w @ [added]"
      and ids: "batch_ids added =
          map (\<lambda>i. uuid4 env @ py_str ''_chunk_'' @ str_of_nat i) [0..<nat (chunk_count doc)]"
      by auto
    have "trace (snd (get_document env w' (document_id doc))) =
          trace w' @ [CollectionGet (map (\<lambda>i. document_id doc @ py_str ''_chunk_'' @ str_of_nat i)
                    [0..<nat (chunk_count doc)])]"
      by (simp add: get_document_world[OF found Some] get_chunks_trace[OF coll])
    then show ?thesis
      using Some ix ids id by (simp add: stored_ids_def)
  qed
qed

text \<open>
  An instance of the amended C3: one document of one chunk, stored as \<open>d1_chunk_0\<close>.
\<close>

theorem chunk_ids_reconstructible_witness:
  "create_document test_env empty_world (py_str ''a.txt'') (py_str ''aaaa bbbb'') (py_str ''txt'') =
     (Inr the_doc, snd (create_document test_env empty_world (py_str ''a.txt'') (py_str ''aaaa bbbb'')
        (py_str ''txt''))) \<and>
   uuid4 test_env \<notin> document_id ` set (rows empty_world) \<and>
   vector_db_service test_env \<noteq> None \<and>
   stored_ids (snd (create_document test_env empty_world (py_str ''a.txt'') (py_str ''aaaa bbbb'')
        (py_str ''txt''))) = [py_str ''d1_chunk_0''] \<and>
   map (\<lambda>i. document_id the_doc @ py_str ''_chunk_'' @ str_of_nat i) [0..<nat (chunk_count the_doc)] =
     [py_str ''d1_chunk_0'']"
proof -
  let ?run = "create_document test_env empty_world (py_str ''a.txt'') (py_str ''aaaa bbbb'') (py_str ''txt'')"
  have a: "?run = (Inr the_doc, snd ?run)"
    by (simp add: ready_run)
  have b: "uuid4 test_env \<notin> document_id ` set (rows empty_world)"
    by (simp add: empty_world_def)
  have c: "vector_db_service test_env \<noteq> None"
    by (simp add: test_env_def)
  have d: "stored_ids empty_world = []"
    by (simp add: stored_ids_def empty_world_def)
  have e: "map (\<lambda>i. document_id the_doc @ py_str ''_chunk_'' @ str_of_nat i) [0..<nat (chunk_count the_doc)] =
     [py_str ''d1_chunk_0'']"
    by (simp add: the_doc_def chunk_id_eval)
  from chunk_ids_reconstructible[OF a b] a b c d e
  show ?thesis by simp
qed

text \<open>
  Claim C3 as stated fails when \<open>vector_db_service\<close> is \<open>None\<close>: the document is ingested
  with \<open>chunk_count = 1\<close>, so the reconstruction gives \<open>d1_chunk_0\<close>, and the collection
  holds no identifier.
\<close>

theorem skipped_upsert_stores_no_id:
  "fst (create_document no_service_env empty_world (py_str ''a.txt'') (py_str ''aaaa bbbb'')
          (py_str ''txt'')) = Inr the_doc \<and>
   chunk_count the_doc = 1 \<and>
   rows (snd (create_document no_service_env empty_world (py_str ''a.txt'') (py_str ''aaaa bbbb'')
          (py_str ''txt''))) = [the_doc] \<and>
   stored_ids (snd (create_document no_service_env empty_world (py_str ''a.txt'') (py_str ''aaaa bbbb'')
          (py_str ''txt''))) = [] \<and>
   map (\<lambda>i. document_id the_doc @ py_str ''_chunk_'' @ str_of_nat i) [0..<nat (chunk_count the_doc)] =
     [py_str ''d1_chunk_0''] \<and>
   stored_ids (snd (create_document no_service_env empty_world (py_str ''a.txt'') (py_str ''aaaa bbbb'')
          (py_str ''txt''))) \<noteq>
     map (\<lambda>i. document_id the_doc @ py_str ''_chunk_'' @ str_of_nat i) [0..<nat (chunk_count the_doc)]"
  by (simp add: no_service_run stored_ids_def the_doc_def chunk_id_eval)

text \<open>
  Claim C8, amended. When the file is written, the text extracted and not blank, the
  chunks embedded, and \<open>add_documents\<close> then raises, \<open>create_document\<close> raises that error;
  the file written at the start remains, and no row has been added to the relational
  store (nor any batch to the collection): the row is created after the upsert.
\<close>

theorem upsert_failure_keeps_file_without_row:
  fixes env :: "'f env" and db :: "'f world"
    and ftype :: pystr and file_content :: "nat list" and extracted :: pystr
  defines "file_ext \<equiv>
     (if py_in (py_str ''pdf'') (lower env ftype) then py_str ''pdf''
      else if py_in (py_str ''wordprocessingml'') (lower env ftype) \<or>
              py_in (py_str ''docx'') (lower env ftype)
      then py_str ''docx''
      else py_str ''txt'')"
  defines "path \<equiv> path_join (STORAGE_PATH (settings env)) (uuid4 env @ py_str ''.'' @ file_ext)"
  defines "db1 \<equiv> db\<lparr>files := files db @ [(path, file_content)]\<rparr>"
  defines "chunks \<equiv> chunk_text extracted (CHUNK_SIZE (settings env)) (CHUNK_OVERLAP (settings env))"
  assumes written: "open_wb env path file_content = None"
    and extracted: "extract_text env file_content ftype = Inr extracted"
    and not_blank: "py_strip extracted \<noteq> []"
    and embedded: "get_embeddings_batch env db1 chunks = (Inr embeddings, db_embedded)"
    and service: "vector_db_service env = Some self"
    and upsert: "add_documents self env db_embedded (uuid4 env)
           (map (\<lambda>i. uuid4 env @ py_str ''_chunk_'' @ str_of_nat i) [0..<length chunks])
           embeddings chunks
           (map (\<lambda>i. \<lparr>meta_document_id = uuid4 env, chunk_index = int i, meta_filename = filename\<rparr>)
              [0..<length chunks]) = (Inl e, db_failed)"
  shows "create_document env db filename file_content ftype = (Inl e, db_failed) \<and>
         files db_failed = files db @ [(path, file_content)] \<and>
         rows db_failed = rows db \<and> index db_failed = index db"
proof -
  have nonempty: "chunks \<noteq> []"
    unfolding chunks_def using not_blank by (rule chunk_text_nonempty)
  have run: "create_document env db filename file_content ftype = (Inl e, db_failed)"
    unfolding create_document_def Let_def
    using written extracted not_blank embedded service upsert nonempty
    unfolding file_ext_def path_def db1_def chunks_def
    by simp
  have w2: "files db_embedded = files db1 \<and> rows db_embedded = rows db1 \<and> index db_embedded = index db1"
    using embedded by (rule get_embeddings_batch_world)
  have w3: "index db_failed = index db_embedded \<and> rows db_failed = rows db_embedded \<and> files db_failed = files db_embedded"
    using add_documents_errors[OF upsert] by simp
  show ?thesis
    using run w2 w3 by (simp add: db1_def)
qed


text \<open>
  An instance of the amended C8: \<open>collection.add\<close> raises "add failed".
\<close>

theorem upsert_failure_keeps_file_without_row_witness:
  "open_wb failing_add_env (py_str ''./documents/d1.txt'') (py_str ''aaaa bbbb'') = None \<and>
   extract_text failing_add_env (py_str ''aaaa bbbb'') (py_str ''txt'') = Inr (py_str ''aaaa bbbb'') \<and>
   py_strip (py_str ''aaaa bbbb'') \<noteq> [] \<and>
   get_embeddings_batch failing_add_env
       (empty_world\<lparr>files := [(py_str ''./documents/d1.txt'', py_str ''aaaa bbbb'')]\<rparr>)
       [py_str ''aaaa bbbb''] =
     (Inr [[0]],
      \<lparr>files = [(py_str ''./documents/d1.txt'', py_str ''aaaa bbbb'')], rows = [], index = [],
       trace = [EmbeddingsPost (Batch [py_str ''aaaa bbbb''])]\<rparr>) \<and>
   vector_db_service failing_add_env = Some (VectorDBService True) \<and>
   add_documents (VectorDBService True) failing_add_env
       \<lparr>files = [(py_str ''./documents/d1.txt'', py_str ''aaaa bbbb'')], rows = [], index = [],
        trace = [EmbeddingsPost (Batch [py_str ''aaaa bbbb''])]\<rparr>
       (py_str ''d1'') [py_str ''d1_chunk_0''] [[0]] [py_str ''aaaa bbbb'']
       [\<lparr>meta_document_id = py_str ''d1'', chunk_index = 0, meta_filename = py_str ''a.txt''\<rparr>] =
     (Inl (External (py_str ''add failed'')),
      \<lparr>files = [(py_str ''./documents/d1.txt'', py_str ''aaaa bbbb'')], rows = [], index = [],
       trace = [EmbeddingsPost (Batch [py_str ''aaaa bbbb'']),
                CollectionAdd [py_str ''d1_chunk_0'']]\<rparr>) \<and>
   create_document failing_add_env empty_world (py_str ''a.txt'') (py_str ''aaaa bbbb'') (py_str ''txt'') =
     (Inl (External (py_str ''add failed'')),
      \<lparr>files = [(py_str ''./documents/d1.txt'', py_str ''aaaa bbbb'')], rows = [], index = [],
       trace = [EmbeddingsPost (Batch [py_str ''aaaa bbbb'']),
                CollectionAdd [py_str ''d1_chunk_0'']]\<rparr>)"
proof -
  let ?w1 = "empty_world\<lparr>files := [(py_str ''./documents/d1.txt'', py_str ''aaaa bbbb'')]\<rparr>"
  let ?w2 = "\<lparr>files = [(py_str ''./documents/d1.txt'', py_str ''aaaa bbbb'')], rows = [],
       index = [], trace = [EmbeddingsPost (Batch [py_str ''aaaa bbbb''])]\<rparr> :: real world"
  let ?w3 = "\<lparr>files = [(py_str ''./documents/d1.txt'', py_str ''aaaa bbbb'')], rows = [],
       index = [], trace = [EmbeddingsPost (Batch [py_str ''aaaa bbbb'']),
                CollectionAdd [py_str ''d1_chunk_0'']]\<rparr> :: real world"
  have h1: "open_wb failing_add_env (py_str ''./documents/d1.txt'') (py_str ''aaaa bbbb'') = None"
    by (simp add: failing_add_env_def test_env_def)
  have h2: "extract_text failing_add_env (py_str ''aaaa bbbb'') (py_str ''txt'') =
      Inr (py_str ''aaaa bbbb'')"
    by (simp add: extract_text_def failing_add_env_def test_env_def file_ext_eval Let_def)
  have h3: "py_strip (py_str ''aaaa bbbb'') \<noteq> []"
    by (simp add: py_strip_eval py_str_eq_Nil)
  have h4: "get_embeddings_batch failing_add_env ?w1 [py_str ''aaaa bbbb''] = (Inr [[0]], ?w2)"
    by (simp add: get_embeddings_batch_def failing_add_env_def test_env_def default_settings_def
        empty_world_def py_str_eq_Nil Let_def)
  have h5: "vector_db_service failing_add_env = Some (VectorDBService True)"
    by (simp add: failing_add_env_def test_env_def)
  have h6: "add_documents (VectorDBService True) failing_add_env ?w2
       (py_str ''d1'') [py_str ''d1_chunk_0''] [[0]] [py_str ''aaaa bbbb'']
       [\<lparr>meta_document_id = py_str ''d1'', chunk_index = 0, meta_filename = py_str ''a.txt''\<rparr>] =
     (Inl (External (py_str ''add failed'')), ?w3)"
    by (simp add: add_documents_def failing_add_env_def test_env_def Let_def)
  have s: "STORAGE_PATH (settings failing_add_env) = py_str ''./documents''"
    "uuid4 failing_add_env = py_str ''d1''" "lower failing_add_env = (\<lambda>s. s)"
    "CHUNK_SIZE (settings failing_add_env) = 500" "CHUNK_OVERLAP (settings failing_add_env) = 50"
    by (simp_all add: failing_add_env_def test_env_def default_settings_def)
  from upsert_failure_keeps_file_without_row[where env = failing_add_env and db = empty_world
      and ftype = "py_str ''txt''" and file_content = "py_str ''aaaa bbbb''"
      and extracted = "py_str ''aaaa bbbb''" and embeddings = "[[0]]" and db_embedded = ?w2
      and self = "VectorDBService True" and filename = "py_str ''a.txt''"
      and e = "External (py_str ''add failed'')" and db_failed = ?w3]
    h1 h2 h3 h4 h5 h6
  show ?thesis
    by (simp add: s file_ext_eval path_eval chunk_text_eval_default chunk_id_eval empty_world_def)
qed

text \<open>
  Claim C8 as stated fails: after the failed upsert the file is there and the relational
  store has no row.
\<close>

theorem failed_upsert_writes_no_row:
  "collection_add failing_add_env []
       \<lparr>batch_ids = [py_str ''d1_chunk_0''], batch_embeddings = [[0]],
        batch_documents = [py_str ''aaaa bbbb''],
        batch_metadatas =
          [\<lparr>meta_document_id = py_str ''d1'', chunk_index = 0, meta_filename = py_str ''a.txt''\<rparr>]\<rparr> =
     Some (py_str ''add failed'') \<and>
   create_document failing_add_env empty_world (py_str ''a.txt'') (py_str ''aaaa bbbb'') (py_str ''txt'') =
     (Inl (External (py_str ''add failed'')),
      \<lparr>files = [(py_str ''./documents/d1.txt'', py_str ''aaaa bbbb'')],
       rows = [], index = [],
       trace = [EmbeddingsPost (Batch [py_str ''aaaa bbbb'']),
                CollectionAdd [py_str ''d1_chunk_0'']]\<rparr>)"
  by (simp add: failing_add_run) (simp add: failing_add_env_def test_env_def)

lemma add_documents_without_collection:
  "\<not> has_collection self \<Longrightarrow>
   add_documents self env w d ids embs chunks metas = (Inl VectorDBNotInitialized, w)"
  by (simp add: add_documents_def)

lemma create_document_without_service_run:
  "create_document env db filename file_content ftype = (r, w') \<Longrightarrow>
   vector_db_service env = None \<Longrightarrow> index w' = index db"
  unfolding create_document_def Let_def
  by (auto split: option.splits sum.splits if_splits prod.splits
      dest!: get_embeddings_batch_world)

lemma create_document_without_collection_run:
  "create_document env db filename file_content ftype = (r, w') \<Longrightarrow>
   vector_db_service env = Some self \<Longrightarrow> \<not> has_collection self \<Longrightarrow>
   (\<exists>e. r = Inl e) \<and> index w' = index db \<and> rows w' = rows db"
  unfolding create_document_def Let_def
  by (auto simp: add_documents_without_collection
      split: option.splits sum.splits if_splits prod.splits
      dest!: get_embeddings_batch_world)

lemma create_document_without_service:
  assumes "vector_db_service env = None"
  shows "index (snd (create_document env db filename file_content ftype)) = index db"
proof -
  obtain r w' where "create_document env db filename file_content ftype = (r, w')"
    by (cases "create_document env db filename file_content ftype")
  with create_document_without_service_run[OF this assms] show ?thesis by simp
qed

lemma create_document_without_collection:
  assumes "vector_db_service env = Some self" and "\<not> has_collection self"
  shows "(\<forall>doc. fst (create_document env db filename file_content ftype) \<noteq> Inr doc) \<and>
         index (snd (create_document env db filename file_content ftype)) = index db \<and>
         rows (snd (create_document env db filename file_content ftype)) = rows db"
proof -
  obtain r w' where "create_document env db filename file_content ftype = (r, w')"
    by (cases "create_document env db filename file_content ftype")
  with create_document_without_collection_run[OF this assms] show ?thesis by auto
qed

lemma query_without_collection:
  assumes "vector_db_service env = Some self" and "\<not> has_collection self"
  shows "(\<exists>detail. fst (query_documents env w q) = Inl (HTTPException 500 detail)) \<and>
         (\<forall>emb w1. get_embedding env w (question q) = (Inr emb, w1) \<longrightarrow>
            query_documents env w q =
              (Inl (HTTPException 500
                 (py_str ''Query failed: '' @ py_str ''Vector database not initialized'')), w1))"
  using assms
  by (auto simp: query_documents_def query_try_def vdb_query_def Let_def
      split: prod.splits sum.splits)

text \<open>
  Claim C9, amended. When \<open>vector_db_service\<close> is \<open>None\<close>, the query fails with HTTP 500
  "Vector database not available", and ingestion leaves the collection as it was (it skips
  the upsert). When the service has no collection, the query fails with HTTP 500, with
  "Query failed: Vector database not initialized" once the question is embedded;
  \<open>add_documents\<close> raises "Vector database not initialized"; and ingestion returns no
  document and adds neither a batch nor a row.
\<close>

theorem unavailable_index_behaviour:
  "(vector_db_service env = None \<longrightarrow>
      query_documents env w q =
        (Inl (HTTPException 500 (py_str ''Vector database not available'')), w) \<and>
      index (snd (create_document env db filename file_content ftype)) = index db) \<and>
   (vector_db_service env = Some self \<and> \<not> has_collection self \<longrightarrow>
      (\<exists>detail. fst (query_documents env w q) = Inl (HTTPException 500 detail)) \<and>
      (\<forall>emb w1. get_embedding env w (question q) = (Inr emb, w1) \<longrightarrow>
         query_documents env w q =
           (Inl (HTTPException 500
              (py_str ''Query failed: '' @ py_str ''Vector database not initialized'')), w1)) \<and>
      add_documents self env db doc_id ids embeddings chunks metadatas =
        (Inl VectorDBNotInitialized, db) \<and>
      (\<forall>doc. fst (create_document env db filename file_content ftype) \<noteq> Inr doc) \<and>
      index (snd (create_document env db filename file_content ftype)) = index db \<and>
      rows (snd (create_document env db filename file_content ftype)) = rows db)"
proof (intro conjI impI)
  assume "vector_db_service env = None"
  then show "query_documents env w q =
        (Inl (HTTPException 500 (py_str ''Vector database not available'')), w)"
    by (simp add: query_documents_def)
next
  assume "vector_db_service env = None"
  then show "index (snd (create_document env db filename file_content ftype)) = index db"
    by (rule create_document_without_service)
next
  assume a: "vector_db_service env = Some self \<and> \<not> has_collection self"
  then show "\<exists>detail. fst (query_documents env w q) = Inl (HTTPException 500 detail)"
    using query_without_collection[of env self w q] by blast
next
  assume a: "vector_db_service env = Some self \<and> \<not> has_collection self"
  then show "\<forall>emb w1. get_embedding env w (question q) = (Inr emb, w1) \<longrightarrow>
         query_documents env w q =
           (Inl (HTTPException 500
              (py_str ''Query failed: '' @ py_str ''Vector database not initialized'')), w1)"
    using query_without_collection[of env self w q] by blast
next
  assume a: "vector_db_service env = Some self \<and> \<not> has_collection self"
  then show "add_documents self env db doc_id ids embeddings chunks metadatas =
        (Inl VectorDBNotInitialized, db)"
    by (simp add: add_documents_without_collection)
next
  assume a: "vector_db_service env = Some self \<and> \<not> has_collection self"
  then show "\<forall>doc. fst (create_document env db filename file_content ftype) \<noteq> Inr doc"
    using create_document_without_collection[of env self db filename file_content ftype] by blast
next
  assume a: "vector_db_service env = Some self \<and> \<not> has_collection self"
  then show "index (snd (create_document env db filename file_content ftype)) = index db"
    using create_document_without_collection[of env self db filename file_content ftype] by blast
next
  assume a: "vector_db_service env = Some self \<and> \<not> has_collection self"
  then show "rows (snd (create_document env db filename file_content ftype)) = rows db"
    using create_document_without_collection[of env self db filename file_content ftype] by blast
qed

text \<open>
  Instances of the amended C9, for the environment without service and the one without
  collection.
\<close>

theorem unavailable_index_behaviour_witness:
  "vector_db_service no_service_env = None \<and>
   query_documents no_service_env empty_world \<lparr>question = py_str ''q'', top_k = 5\<rparr> =
     (Inl (HTTPException 500 (py_str ''Vector database not available'')), empty_world) \<and>
   index (snd (create_document no_service_env empty_world (py_str ''a.txt'') (py_str ''aaaa bbbb'')
            (py_str ''txt''))) = [] \<and>
   vector_db_service no_collection_env = Some (VectorDBService False) \<and>
   \<not> has_collection (VectorDBService False) \<and>
   get_embedding no_collection_env empty_world (py_str ''q'') =
     (Inr [0], empty_world\<lparr>trace := [EmbeddingsPost (Single (py_str ''q''))]\<rparr>) \<and>
   query_documents no_collection_env empty_world \<lparr>question = py_str ''q'', top_k = 5\<rparr> =
     (Inl (HTTPException 500
        (py_str ''Query failed: '' @ py_str ''Vector database not initialized'')),
      empty_world\<lparr>trace := [EmbeddingsPost (Single (py_str ''q''))]\<rparr>) \<and>
   fst (create_document no_collection_env empty_world (py_str ''a.txt'') (py_str ''aaaa bbbb'')
          (py_str ''txt'')) = Inl VectorDBNotInitialized \<and>
   rows (snd (create_document no_collection_env empty_world (py_str ''a.txt'') (py_str ''aaaa bbbb'')
          (py_str ''txt''))) = []"
proof -
  let ?q = "\<lparr>question = py_str ''q'', top_k = 5\<rparr>"
  have a: "vector_db_service no_service_env = None"
    by (simp add: no_service_env_def)
  have b: "vector_db_service no_collection_env = Some (VectorDBService False)"
    by (simp add: no_collection_env_def)
  have c: "get_embedding no_collection_env empty_world (question ?q) =
     (Inr [0], empty_world\<lparr>trace := [EmbeddingsPost (Single (py_str ''q''))]\<rparr>)"
    by (simp add: get_embedding_def no_collection_env_def test_env_def default_settings_def
        empty_world_def py_str_eq_Nil Let_def)
  have e: "index empty_world = []" "rows empty_world = []"
    by (simp_all add: empty_world_def)
  have nc: "\<not> has_collection (VectorDBService False)"
    by simp
  have p1: "query_documents no_service_env empty_world ?q =
        (Inl (HTTPException 500 (py_str ''Vector database not available'')), empty_world) \<and>
      index (snd (create_document no_service_env empty_world (py_str ''a.txt'')
        (py_str ''aaaa bbbb'') (py_str ''txt''))) = index empty_world"
    using unavailable_index_behaviour[where env = no_service_env and w = empty_world and q = ?q
      and db = empty_world and filename = "py_str ''a.txt''"
      and file_content = "py_str ''aaaa bbbb''" and ftype = "py_str ''txt''"] a
    by blast
  have p2: "query_documents no_collection_env empty_world ?q =
           (Inl (HTTPException 500
              (py_str ''Query failed: '' @ py_str ''Vector database not initialized'')),
            empty_world\<lparr>trace := [EmbeddingsPost (Single (py_str ''q''))]\<rparr>)"
    using unavailable_index_behaviour[where env = no_collection_env and self = "VectorDBService False"
      and w = empty_world and q = ?q and db = empty_world and filename = "py_str ''a.txt''"
      and file_content = "py_str ''aaaa bbbb''" and ftype = "py_str ''txt''"] b nc c
    by blast
  have c': "get_embedding no_collection_env empty_world (py_str ''q'') =
     (Inr [0], empty_world\<lparr>trace := [EmbeddingsPost (Single (py_str ''q''))]\<rparr>)"
    using c by simp
  show ?thesis
    using a b nc c' p1 p2 by (simp add: no_collection_run e)
qed

text \<open>
  Claim C9 as stated fails for ingestion: with \<open>vector_db_service = None\<close> the document is
  created, and the only external call is the embedding request.
\<close>

theorem absent_service_ingestion_succeeds:
  "vector_db_service no_service_env = None \<and>
   create_document no_service_env empty_world (py_str ''a.txt'') (py_str ''aaaa bbbb'') (py_str ''txt'') =
     (Inr the_doc,
      \<lparr>files = [(py_str ''./documents/d1.txt'', py_str ''aaaa bbbb'')],
       rows = [the_doc], index = [],
       trace = [EmbeddingsPost (Batch [py_str ''aaaa bbbb''])]\<rparr>)"
  by (simp add: no_service_run) (simp add: no_service_env_def)

end
